theory Spec2Isabelle
  imports Complex_Main
begin

section \<open>Text values\<close>

text \<open>
  A Python \<open>str\<close> is a sequence of Unicode code points, so a text value is a list of
  code points. The alias table of the separator mixes katakana with ASCII; every literal
  below is the code-point sequence of the literal in the source.
\<close>

type_synonym ustr = "nat list"

text \<open>
  \<open>str.lower\<close>: ASCII capitals go to their small letters, U+0130 to the two code points
  U+0069 U+0307 and U+212A (Kelvin sign) to \<open>k\<close>. These are the only code points whose
  lower-case form contains an ASCII letter. Every other cased letter is left as it is: its
  lower-case form is a non-ASCII letter which, like the letter itself, occurs in no alias and
  in no tag name, so no substring test of the parser can tell the two apart. Katakana and
  punctuation are uncased.
\<close>

definition lower_cp :: "nat \<Rightarrow> ustr" where
  "lower_cp c =
     (if 65 \<le> c \<and> c \<le> 90 then [c + 32]
      else if c = 304 then [105, 775]
      else if c = 8490 then [107]
      else [c])"

definition py_lower :: "ustr \<Rightarrow> ustr" where
  "py_lower s = concat (map lower_cp s)"

text \<open>\<open>str.isspace\<close> for one code point, and \<open>str.strip()\<close> without arguments.\<close>

definition is_space :: "nat \<Rightarrow> bool" where
  "is_space c \<longleftrightarrow>
     (9 \<le> c \<and> c \<le> 13) \<or> (28 \<le> c \<and> c \<le> 32) \<or> c = 133 \<or> c = 160 \<or> c = 5760 \<or>
     (8192 \<le> c \<and> c \<le> 8202) \<or> c = 8232 \<or> c = 8233 \<or> c = 8239 \<or> c = 8287 \<or>
     c = 12288"

definition py_strip :: "ustr \<Rightarrow> ustr" where
  "py_strip s = rev (dropWhile is_space (rev (dropWhile is_space s)))"

text \<open>\<open>sub in s\<close> on strings: \<open>sub\<close> occurs in \<open>s\<close> as a contiguous run.\<close>

fun starts_with :: "'a list \<Rightarrow> 'a list \<Rightarrow> bool" where
  "starts_with s [] = True"
| "starts_with [] (p # ps) = False"
| "starts_with (c # cs) (p # ps) = (c = p \<and> starts_with cs ps)"

fun contains :: "'a list \<Rightarrow> 'a list \<Rightarrow> bool" where
  "contains [] sub = (sub = [])"
| "contains (c # cs) sub = (starts_with (c # cs) sub \<or> contains cs sub)"

text \<open>\<open>s.replace(old, new)\<close> for single code points, and \<open>s.split(',')\<close>.\<close>

definition replace_cp :: "nat \<Rightarrow> nat \<Rightarrow> ustr \<Rightarrow> ustr" where
  "replace_cp old new s = map (\<lambda>c. if c = old then new else c) s"

fun split_comma :: "ustr \<Rightarrow> ustr list" where
  "split_comma [] = [[]]"
| "split_comma (c # cs) =
     (if c = 44 then [] # split_comma cs
      else (case split_comma cs of
              [] \<Rightarrow> [[c]]
            | w # ws \<Rightarrow> (c # w) # ws))"


section \<open>InstrumentSeparator: parsing the line-up text\<close>

datatype tag = Vocal | Kick | Snare | Hihat | Tom | Bass | E_guitar | A_guitar | Keyboard | Synth

text \<open>The canonical tag strings \<open>'vocal'\<close>, \<open>'kick'\<close>, ... of the source.\<close>

fun tag_name :: "tag \<Rightarrow> ustr" where
  "tag_name Vocal = [118, 111, 99, 97, 108]"
| "tag_name Kick = [107, 105, 99, 107]"
| "tag_name Snare = [115, 110, 97, 114, 101]"
| "tag_name Hihat = [104, 105, 104, 97, 116]"
| "tag_name Tom = [116, 111, 109]"
| "tag_name Bass = [98, 97, 115, 115]"
| "tag_name E_guitar = [101, 95, 103, 117, 105, 116, 97, 114]"
| "tag_name A_guitar = [97, 95, 103, 117, 105, 116, 97, 114]"
| "tag_name Keyboard = [107, 101, 121, 98, 111, 97, 114, 100]"
| "tag_name Synth = [115, 121, 110, 116, 104]"

text \<open>
  The dictionary \<open>mapping\<close> of \<open>_parse_lineup\<close>, in the order of the literal (a Python
  dictionary iterates in insertion order). The ASCII aliases are
  \<open>vo bd sn sd hh ba eg gt ag kb key syn\<close>; the others are katakana.
\<close>

definition mapping :: "(ustr \<times> tag) list" where
  "mapping =
  [([12508, 12540, 12459, 12523], Vocal),
   ([12532, 12457, 12540, 12459, 12523], Vocal),
   ([118, 111], Vocal),
   ([12461, 12483, 12463], Kick),
   ([12496, 12473, 12489, 12521], Kick),
   ([98, 100], Kick),
   ([12473, 12493, 12450], Snare),
   ([115, 110], Snare),
   ([115, 100], Snare),
   ([12495, 12452, 12495, 12483, 12488], Hihat),
   ([12495, 12483, 12488], Hihat),
   ([104, 104], Hihat),
   ([12479, 12512], Tom),
   ([12505, 12540, 12473], Bass),
   ([12505], Bass),
   ([98, 97], Bass),
   ([12456, 12524, 12461, 12462, 12479, 12540], E_guitar),
   ([12462, 12479, 12540], E_guitar),
   ([12456, 12524, 12461], E_guitar),
   ([101, 103], E_guitar),
   ([103, 116], E_guitar),
   ([12450, 12467, 12462], A_guitar),
   ([12450, 12467, 12540, 12473, 12486, 12451, 12483, 12463, 12462, 12479, 12540], A_guitar),
   ([97, 103], A_guitar),
   ([12461, 12540, 12508, 12540, 12489], Keyboard),
   ([12461, 12540, 12508], Keyboard),
   ([107, 98], Keyboard),
   ([107, 101, 121], Keyboard),
   ([12471, 12531, 12475], Synth),
   ([12471, 12531, 12475, 12469, 12452, 12470, 12540], Synth),
   ([115, 121, 110], Synth)]"

text \<open>
  The inner loop \<open>for jp_name, eng_name in mapping.items()\<close>: the first entry whose alias
  (lower-cased) or whose tag name occurs in the item decides, and the loop breaks there.
\<close>

fun find_tag :: "(ustr \<times> tag) list \<Rightarrow> ustr \<Rightarrow> tag option" where
  "find_tag [] item = None"
| "find_tag ((jp_name, eng_name) # rest) item =
     (if contains item (py_lower jp_name) \<or> contains item (tag_name eng_name)
      then Some eng_name
      else find_tag rest item)"

text \<open>The outer loop over the items, with the list \<open>instruments\<close> built so far.\<close>

fun parse_items :: "ustr list \<Rightarrow> tag list \<Rightarrow> tag list" where
  "parse_items [] instruments = instruments"
| "parse_items (raw # items) instruments =
     (let item = py_lower (py_strip raw) in
      if item = [] then parse_items items instruments
      else (case find_tag mapping item of
              None \<Rightarrow> parse_items items instruments
            | Some eng_name \<Rightarrow>
                if eng_name \<in> set instruments then parse_items items instruments
                else parse_items items (instruments @ [eng_name])))"

text \<open>
  \<open>text.replace('\n', ',').replace(U+3001, ',').split(',')\<close>: line feed is 10, the
  ideographic comma U+3001 is 12289, the ASCII comma is 44.
\<close>

definition lineup_items :: "ustr \<Rightarrow> ustr list" where
  "lineup_items text = split_comma (replace_cp 12289 44 (replace_cp 10 44 text))"

definition parse_lineup :: "ustr \<Rightarrow> tag list" where
  "parse_lineup text = parse_items (lineup_items text) []"


section \<open>Numbers and arrays\<close>

text \<open>
  Levels, scores and samples are floating-point numbers in the source; they are modelled
  as real numbers, so rounding is outside the model and every comparison with a threshold
  is the exact one. An array is a list.
\<close>

datatype py_error = TypeError | KeyError | ValueError | Nan_level

text \<open>\<open>np.mean\<close> of a non-empty array, and boolean-mask indexing \<open>xs[mask]\<close>.\<close>

definition mean :: "real list \<Rightarrow> real" where
  "mean xs = sum_list xs / real (length xs)"

definition select :: "bool list \<Rightarrow> 'a list \<Rightarrow> 'a list" where
  "select msk xs = map snd (filter fst (zip msk xs))"

text \<open>\<open>20 * np.log10(x) if x > 0 else -100\<close>.\<close>

definition level_db :: "real \<Rightarrow> real" where
  "level_db x = (if x > 0 then 20 * log 10 x else - 100)"

text \<open>\<open>np.sqrt(np.mean(xs**2))\<close>.\<close>

definition np_rms :: "real list \<Rightarrow> real" where
  "np_rms xs = sqrt (mean (map (\<lambda>x. x\<^sup>2) xs))"

text \<open>
  \<open>np.percentile(a, q)\<close> with numpy's default linear interpolation: the array is
  sorted, the position \<open>q / 100 * (n - 1)\<close> is split into its integer part and its
  fraction, and the two neighbours are interpolated. An empty array has no percentile
  (numpy returns NaN); that is the value \<open>None\<close>.
\<close>

definition percentile :: "real list \<Rightarrow> real \<Rightarrow> real option" where
  "percentile a q =
     (if a = [] then None
      else
        (let s = sort a;
             n = length s;
             pos = q / 100 * real (n - 1);
             lo = nat \<lfloor>pos\<rfloor>;
             hi = min (lo + 1) (n - 1);
             g = pos - real lo
         in Some (s ! lo + g * (s ! hi - s ! lo))))"

text \<open>\<open>np.percentile(a, 95) - np.percentile(a, 5)\<close>.\<close>

definition p95_minus_p5 :: "real list \<Rightarrow> real option" where
  "p95_minus_p5 a =
     (case percentile a 95 of
        None \<Rightarrow> None
      | Some p95 \<Rightarrow> (case percentile a 5 of None \<Rightarrow> None | Some p5 \<Rightarrow> Some (p95 - p5)))"


section \<open>V2Analyzer: whole-mix dynamics and frequency balance\<close>

text \<open>
  \<open>_analyze_dynamics\<close>. The frame-wise RMS sequence \<open>rms_frames\<close> is the output of
  \<open>librosa.feature.rms\<close> on the mono mix and is an input of the model. The source turns
  it into decibels before taking the percentiles.
\<close>

definition mix_dynamic_range :: "real list \<Rightarrow> real option" where
  "mix_dynamic_range rms_frames =
     (let rms_db_frames = map (\<lambda>r. 20 * log 10 (r + 1 / 10 ^ 10)) rms_frames
      in p95_minus_p5 rms_db_frames)"

record dynamics =
  mix_peak_db :: real
  mix_rms_db :: real
  mix_crest_factor :: real
  mix_dynamic_range_db :: "real option"

definition analyze_dynamics :: "real list \<Rightarrow> real list \<Rightarrow> py_error + dynamics" where
  "analyze_dynamics y_mono rms_frames =
     (if y_mono = [] then Inl ValueError
      else
        (let peak_linear = Max (set (map abs y_mono));
             peak = level_db peak_linear;
             rms = np_rms y_mono;
             rms_level = level_db rms
         in Inr \<lparr>mix_peak_db = peak, mix_rms_db = rms_level,
                  mix_crest_factor = peak - rms_level,
                  mix_dynamic_range_db = mix_dynamic_range rms_frames\<rparr>))"

text \<open>
  \<open>_analyze_frequency\<close>. The bin frequencies \<open>freqs\<close> and the time-averaged spectrum in
  decibels \<open>avg_spectrum\<close> come from librosa and are inputs of the model.
\<close>

definition bands :: "(real \<times> real \<times> string) list" where
  "bands =
     [(20, 80, ''Sub Bass''),
      (80, 250, ''Bass''),
      (250, 500, ''Low-Mid''),
      (500, 2000, ''Mid''),
      (2000, 4000, ''High-Mid''),
      (4000, 8000, ''Presence''),
      (8000, 16000, ''Brilliance'')]"

definition band_energy :: "real list \<Rightarrow> real list \<Rightarrow> real \<Rightarrow> real \<Rightarrow> real" where
  "band_energy freqs avg_spectrum low_freq high_freq =
     (let msk = map (\<lambda>f. f \<ge> low_freq \<and> f < high_freq) freqs in
      if list_ex (\<lambda>b. b) msk then mean (select msk avg_spectrum) else - 100)"

fun band_loop ::
    "real list \<Rightarrow> real list \<Rightarrow> (real \<times> real \<times> string) list \<Rightarrow> real list \<Rightarrow> real list" where
  "band_loop freqs avg_spectrum [] band_energies = band_energies"
| "band_loop freqs avg_spectrum ((low_freq, high_freq, band_name) # rest) band_energies =
     band_loop freqs avg_spectrum rest
       (band_energies @ [band_energy freqs avg_spectrum low_freq high_freq])"

definition analyze_frequency :: "real list \<Rightarrow> real list \<Rightarrow> real list" where
  "analyze_frequency freqs avg_spectrum = band_loop freqs avg_spectrum bands []"


section \<open>AudioDatabase: the history store\<close>

text \<open>
  The session metadata is the dictionary built by the user interface; the engine reads
  three of its keys. \<open>None\<close> stands for a missing key (what \<open>dict.get\<close> without default
  returns). The venue capacity is the integer of a slider.
\<close>

record session_metadata =
  meta_venue_capacity :: "int option"
  meta_mixer :: "ustr option"
  meta_pa_system :: "ustr option"

record equipment =
  equip_mixer :: "ustr option"
  equip_pa_system :: "ustr option"

text \<open>Values of the result dictionary of the mix analyzer: a number or an array.\<close>

datatype pyval = Num real | Arr "real list"

text \<open>
  A stored diagnosis of one instrument, as the trend computation reads it: the keys
  \<open>rms_db\<close> and \<open>freq_bands\<close> may be missing; \<open>has_other_keys\<close> records whether the
  dictionary holds any other key (a dictionary is truthy when it is not empty).
\<close>

record past_instrument =
  past_rms_db :: "real option"
  past_freq_bands :: "(string \<times> real) list option"
  has_other_keys :: bool

text \<open>
  A history entry. \<open>analysis_snapshot\<close> is the dictionary under the key \<open>analysis\<close>
  without its key \<open>instruments\<close>, which is the field \<open>instruments\<close>.
\<close>

record entry =
  entry_id :: ustr
  timestamp :: ustr
  entry_metadata :: session_metadata
  analysis_snapshot :: "(string \<times> pyval) list"
  instruments :: "(tag \<times> past_instrument) list"
  entry_equipment :: equipment

text \<open>
  The file \<open>audio_history.json\<close>: missing, unreadable, or holding a list of entries.
  Writing a value with \<open>json.dump\<close> and reading it with \<open>json.load\<close> gives the value
  back, so the file is modelled by the list it holds.
\<close>

datatype file_state = Missing | Corrupt | Stored "entry list"

record audio_database =
  history :: "entry list"
  db_file :: file_state

definition load :: "audio_database \<Rightarrow> audio_database" where
  "load db =
     (case db_file db of
        Missing \<Rightarrow> db
      | Corrupt \<Rightarrow> db\<lparr>history := []\<rparr>
      | Stored entries \<Rightarrow> db\<lparr>history := entries\<rparr>)"

text \<open>\<open>__init__\<close>: an empty history, then \<open>load\<close>.\<close>

definition open_database :: "file_state \<Rightarrow> audio_database" where
  "open_database f = load \<lparr>history = [], db_file = f\<rparr>"

definition save :: "audio_database \<Rightarrow> audio_database" where
  "save db = db\<lparr>db_file := Stored (history db)\<rparr>"

text \<open>\<open>float(analysis_result.get(key, 0))\<close>; \<open>float\<close> of a list raises \<open>TypeError\<close>.\<close>

definition get_float :: "(string \<times> pyval) list \<Rightarrow> string \<Rightarrow> py_error + real" where
  "get_float analysis_result k =
     (case map_of analysis_result k of
        None \<Rightarrow> Inr 0
      | Some (Num r) \<Rightarrow> Inr r
      | Some (Arr xs) \<Rightarrow> Inl TypeError)"

text \<open>
  \<open>add_entry\<close>. The two readings of the clock (\<open>id\<close> and \<open>timestamp\<close>) are arguments.
  \<open>_convert_to_serializable\<close> turns numpy values into Python values of the same
  content, which is the identity on the model's values.
\<close>

definition add_entry ::
    "audio_database \<Rightarrow> (string \<times> pyval) list \<Rightarrow> session_metadata \<Rightarrow> ustr \<Rightarrow> ustr \<Rightarrow>
     py_error + (audio_database \<times> ustr)" where
  "add_entry db analysis_result metadata now_id now_iso =
     (case get_float analysis_result ''rms_db'' of Inl e \<Rightarrow> Inl e | Inr rms \<Rightarrow>
      case get_float analysis_result ''peak_db'' of Inl e \<Rightarrow> Inl e | Inr peak \<Rightarrow>
      case get_float analysis_result ''stereo_width'' of Inl e \<Rightarrow> Inl e | Inr width \<Rightarrow>
      case get_float analysis_result ''crest_factor'' of Inl e \<Rightarrow> Inl e | Inr crest \<Rightarrow>
        (let e = \<lparr>entry_id = now_id, timestamp = now_iso, entry_metadata = metadata,
                  analysis_snapshot =
                    [(''rms_db'', Num rms), (''peak_db'', Num peak),
                     (''stereo_width'', Num width), (''crest_factor'', Num crest),
                     (''band_energies'',
                        (case map_of analysis_result ''band_energies'' of
                           None \<Rightarrow> Arr [] | Some v \<Rightarrow> v))],
                  instruments = [],
                  entry_equipment =
                    \<lparr>equip_mixer = meta_mixer metadata,
                     equip_pa_system = meta_pa_system metadata\<rparr>\<rparr>
         in Inr (save (db\<lparr>history := history db @ [e]\<rparr>), entry_id e)))"

definition get_default :: "'a option \<Rightarrow> 'a \<Rightarrow> 'a" where
  "get_default v d = (case v of None \<Rightarrow> d | Some x \<Rightarrow> x)"

text \<open>The score of one entry in the loop of \<open>find_similar\<close>.\<close>

definition similar_score :: "session_metadata \<Rightarrow> entry \<Rightarrow> int" where
  "similar_score current_metadata e =
     (let score0 = 0;
          score1 = (if \<bar>get_default (meta_venue_capacity current_metadata) 0 -
                        get_default (meta_venue_capacity (entry_metadata e)) 0\<bar> < 50
                    then score0 + 30 else score0);
          score2 = (if meta_mixer current_metadata = equip_mixer (entry_equipment e)
                    then score1 + 40 else score1);
          score3 = (if meta_pa_system current_metadata = equip_pa_system (entry_equipment e)
                    then score2 + 30 else score2)
      in score3)"

text \<open>
  \<open>find_similar\<close>: \<open>list.sort(key, reverse=True)\<close> is stable, which is the insertion
  sort on the negated key; then the first \<open>limit\<close> elements, then those with a score
  above 20.
\<close>

definition find_similar :: "audio_database \<Rightarrow> session_metadata \<Rightarrow> nat \<Rightarrow> entry list" where
  "find_similar db current_metadata limit =
     (let similar = map (\<lambda>e. (e, similar_score current_metadata e)) (history db);
          sorted_similar = sort_key (\<lambda>s. - snd s) similar
      in map fst (filter (\<lambda>s. snd s > 20) (take limit sorted_similar)))"


section \<open>ComparisonAnalyzer: match type\<close>

datatype match_type = Exact_match | Similar | Different

text \<open>The local variable \<open>score\<close> of \<open>_get_match_type\<close> before the classification.\<close>

definition match_score :: "session_metadata \<Rightarrow> session_metadata \<Rightarrow> equipment \<Rightarrow> int" where
  "match_score current_metadata past_metadata past_equipment =
     (let score0 = 0;
          current_capacity = get_default (meta_venue_capacity current_metadata) 0;
          past_capacity = get_default (meta_venue_capacity past_metadata) 0;
          score1 = (if \<bar>current_capacity - past_capacity\<bar> < 50 then score0 + 30 else score0);
          score2 = (if meta_mixer current_metadata = equip_mixer past_equipment
                    then score1 + 40 else score1);
          score3 = (if meta_pa_system current_metadata = equip_pa_system past_equipment
                    then score2 + 30 else score2)
      in score3)"

definition get_match_type ::
    "session_metadata \<Rightarrow> session_metadata \<Rightarrow> equipment \<Rightarrow> match_type" where
  "get_match_type current_metadata past_metadata past_equipment =
     (let s = match_score current_metadata past_metadata past_equipment in
      if s \<ge> 80 then Exact_match
      else if s \<ge> 50 then Similar
      else Different)"


section \<open>InstrumentAnalyzer: data\<close>

text \<open>
  Issues and recommendations are dictionaries in the source. The model keeps the keys that
  decide what is generated (severity, category, problem name, score; priority, title, the
  method of each approach, the trend note) and leaves out the display texts (detail,
  scientific basis, steps, pros and cons, difficulty, expected results, good points).
  Each text constant below is the code-point sequence of one string literal of the source.
\<close>

datatype severity = Critical | Important | Optional

record problem =
  severity :: severity
  category :: ustr
  problem_name :: ustr
  score :: real

datatype status = Improving | Degrading | Stable

record trend =
  rms_change :: real
  status :: status
  clarity_change :: "real option"

record approach =
  approach_method :: ustr

record recommendation =
  priority :: severity
  title :: ustr
  approaches :: "approach list"
  trend_note :: "ustr option"

text \<open>
  The equipment profiles are dictionaries or \<open>None\<close>. Of the console profile the
  generator reads \<open>has_de_esser\<close> and \<open>has_dynamic_eq\<close> (the generic profile has neither
  key); of the loudspeaker profile it tests only whether there is one.
\<close>

record mixer_specs =
  mixer_name :: "ustr option"
  has_de_esser :: "bool option"
  has_dynamic_eq :: "bool option"

record pa_specs =
  pa_name :: "ustr option"

text \<open>The features of one stem: the samples and what librosa computes from them.\<close>

record stem =
  stem_audio :: "real list"
  stem_stft_abs :: "real list list"
  stem_freqs :: "real list"
  stem_rms_frames :: "real list"
  stem_onset_env :: "real list"
  stem_harmonic :: "real list"
  stem_percussive :: "real list"

text \<open>
  The dictionary \<open>analysis\<close> of \<open>analyze_instrument\<close>. The keys \<open>freq_bands\<close>,
  \<open>issues\<close> and \<open>recommendations\<close> are those the vocal analyzer writes; what another
  analyzer returns is kept whole in \<open>a_other\<close>.
\<close>

record 'd analysis =
  a_name :: tag
  a_rms_db :: real
  a_peak_db :: real
  a_crest_factor :: real
  a_dynamic_range :: "real option"
  a_onset_strength :: real
  a_harmonic_ratio :: real
  a_percussive_ratio :: real
  a_level_vs_mix :: real
  a_spectrum :: "real list"
  a_freqs :: "real list"
  a_issues :: "problem list"
  a_recommendations :: "recommendation list"
  a_trend :: "trend option"
  a_freq_bands :: "(string \<times> real) list option"
  a_other :: "'d option"

record vocal_detail =
  d_freq_bands :: "(string \<times> real) list"
  d_issues :: "problem list"
  d_recommendations :: "recommendation list"

text \<open>
  The analyzer object. The analyzers of the tags other than vocal are a parameter: given
  the tag, the stem and the base analysis they return their detail or raise.
\<close>

record 'd analyzer =
  self_overall_rms :: real
  self_mixer_specs :: "mixer_specs option"
  self_pa_specs :: "pa_specs option"
  self_past_analyses :: "entry list"
  self_other_analyzers :: "tag \<Rightarrow> stem \<Rightarrow> 'd analysis \<Rightarrow> py_error + 'd"

definition cat_frequency_balance :: ustr where
  "cat_frequency_balance =
     [21608, 27874, 25968, 12496, 12521, 12531, 12473]"

definition cat_dynamics :: ustr where
  "cat_dynamics =
     [12480, 12452, 12490, 12511, 12463, 12473]"

definition cat_level_balance :: ustr where
  "cat_level_balance =
     [38899, 37327, 12496, 12521, 12531, 12473]"

definition prob_low_clarity :: ustr where
  "prob_low_clarity =
     [26126, 30637, 24230, 12364, 20302, 12356]"

definition prob_boxy :: ustr where
  "prob_boxy =
     [12371, 12418, 12426, 12364, 24375, 12356]"

definition prob_sibilance :: ustr where
  "prob_sibilance =
     [27503, 25830, 38899, 12364, 36942, 22810, 65288, 115, 47, 115, 104, 47, 99, 104,
      38899, 12364, 21050, 12373, 12427, 65289]"

definition prob_over_compressed :: ustr where
  "prob_over_compressed =
     [12508, 12540, 12459, 12523, 12364, 36942, 22311, 32302]"

definition prob_dynamics_wide :: ustr where
  "prob_dynamics_wide =
     [12508, 12540, 12459, 12523, 12398, 12480, 12452, 12490, 12511, 12463, 12473, 12364,
      24195, 12377, 12366]"

definition prob_buried :: ustr where
  "prob_buried =
     [12508, 12540, 12459, 12523, 12364, 22475, 12418, 12428, 12390, 12356, 12427]"

definition prob_too_loud :: ustr where
  "prob_too_loud =
     [12508, 12540, 12459, 12523, 12364, 22823, 12365, 12377, 12366]"

definition word_clarity :: ustr where
  "word_clarity =
     [26126, 30637, 24230]"

definition word_boxy :: ustr where
  "word_boxy =
     [12371, 12418, 12426]"

definition word_sibilance :: ustr where
  "word_sibilance =
     [27503, 25830, 38899]"

definition meth_eq_basic :: ustr where
  "meth_eq_basic =
     [69, 81, 20966, 29702, 65288, 22522, 26412, 65289]"

definition meth_eq_comp :: ustr where
  "meth_eq_comp =
     [69, 81, 32, 43, 32, 67, 111, 109, 112, 114, 101, 115, 115, 111, 114, 65288, 25512,
      22888, 65289]"

definition meth_dynamic_eq :: ustr where
  "meth_dynamic_eq =
     [68, 121, 110, 97, 109, 105, 99, 32, 69, 81, 65288, 19978, 32026, 65289]"

definition meth_pa_adjust :: ustr where
  "meth_pa_adjust =
     [80, 65, 12471, 12473, 12486, 12512, 35519, 25972]"

definition meth_target_eq_cut :: ustr where
  "meth_target_eq_cut =
     [12479, 12540, 12466, 12483, 12488, 69, 81, 12459, 12483, 12488]"

definition meth_hpf_mid :: ustr where
  "meth_hpf_mid =
     [72, 80, 70, 32, 43, 32, 20013, 22495, 12471, 12455, 12452, 12500, 12531, 12464]"

definition meth_de_esser :: ustr where
  "meth_de_esser =
     [68, 101, 45, 69, 115, 115, 101, 114, 65288, 25512, 22888, 65289]"

definition meth_manual_eq_cut :: ustr where
  "meth_manual_eq_cut =
     [12510, 12491, 12517, 12450, 12523, 69, 81, 12459, 12483, 12488]"

definition meth_mic_technique :: ustr where
  "meth_mic_technique =
     [12510, 12452, 12463, 25216, 34899, 30340, 23550, 31574]"

definition meth_comp_relax :: ustr where
  "meth_comp_relax =
     [12467, 12531, 12503, 12524, 12483, 12469, 12540, 32233, 21644]"

definition meth_comp_proper :: ustr where
  "meth_comp_proper =
     [12467, 12531, 12503, 12524, 12483, 12469, 12540, 36969, 20999, 35373, 23450]"

definition title_clarity :: ustr where
  "title_clarity =
     [127908, 32, 12508, 12540, 12459, 12523, 26126, 30637, 24230, 21521, 19978]"

definition title_boxy :: ustr where
  "title_boxy =
     [129529, 32, 12371, 12418, 12426, 38500, 21435]"

definition title_sibilance :: ustr where
  "title_sibilance =
     [9986, 65039, 32, 27503, 25830, 38899, 12467, 12531, 12488, 12525, 12540, 12523]"

definition title_dynamics :: ustr where
  "title_dynamics =
     [128202, 32, 12480, 12452, 12490, 12511, 12463, 12473, 26368, 36969, 21270]"

definition note_improving :: ustr where
  "note_improving =
     [128200, 32, 21069, 22238, 12363, 12425, 25913, 21892, 20670, 21521, 32, 45, 32,
      29694, 22312, 12398, 26041, 21521, 24615, 12434, 32173, 25345, 25512, 22888]"

definition note_degrading :: ustr where
  "note_degrading =
     [128201, 32, 21069, 22238, 12363, 12425, 24746, 21270, 32, 45, 32, 26089, 24613,
      12394, 23550, 24540, 25512, 22888]"


section \<open>InstrumentAnalyzer: trend\<close>

definition dict_truthy :: "past_instrument \<Rightarrow> bool" where
  "dict_truthy p \<longleftrightarrow> past_rms_db p \<noteq> None \<or> past_freq_bands p \<noteq> None \<or> has_other_keys p"

fun find_past_analysis :: "entry list \<Rightarrow> tag \<Rightarrow> past_instrument option" where
  "find_past_analysis [] instrument_name = None"
| "find_past_analysis (past # rest) instrument_name =
     (case map_of (instruments past) instrument_name of
        None \<Rightarrow> find_past_analysis rest instrument_name
      | Some p \<Rightarrow> if dict_truthy p then Some p else find_past_analysis rest instrument_name)"

definition band_or_zero :: "(string \<times> real) list \<Rightarrow> string \<Rightarrow> real" where
  "band_or_zero d k = (case map_of d k of None \<Rightarrow> 0 | Some v \<Rightarrow> v)"

definition calculate_trend :: "'d analysis \<Rightarrow> past_instrument \<Rightarrow> trend" where
  "calculate_trend current past =
     (let change = a_rms_db current - get_default (past_rms_db past) (a_rms_db current);
          st = (if \<bar>change\<bar> > 2 then (if change > 0 then Improving else Degrading)
                else Stable)
      in \<lparr>rms_change = change, status = st,
          clarity_change =
            (case past_freq_bands past of
               None \<Rightarrow> None
             | Some past_bands \<Rightarrow>
                 (case a_freq_bands current of
                    None \<Rightarrow> None
                  | Some current_bands \<Rightarrow>
                      Some (band_or_zero current_bands ''clarity'' -
                            band_or_zero past_bands ''clarity'')))\<rparr>)"


section \<open>InstrumentAnalyzer: vocal issues\<close>

definition dict_get :: "(string \<times> 'v) list \<Rightarrow> string \<Rightarrow> py_error + 'v" where
  "dict_get d k = (case map_of d k of None \<Rightarrow> Inl KeyError | Some v \<Rightarrow> Inr v)"

text \<open>
  The five rule groups of \<open>_detect_vocal_problems\<close>, each appending at most one problem,
  in the order of the source (the order of discovery).
\<close>

definition vocal_rules :: "real \<Rightarrow> real \<Rightarrow> real \<Rightarrow> real \<Rightarrow> real \<Rightarrow> problem list" where
  "vocal_rules clarity body sibilance crest lvl =
     (if clarity < - 30
      then [\<lparr>severity = (if clarity < - 35 then Critical else Important),
             category = cat_frequency_balance, problem_name = prob_low_clarity,
             score = \<bar>clarity + 25\<bar>\<rparr>]
      else []) @
     (if body > clarity + 8
      then [\<lparr>severity = Important, category = cat_frequency_balance,
             problem_name = prob_boxy, score = body - clarity\<rparr>]
      else []) @
     (if sibilance > clarity + 5
      then [\<lparr>severity = Important, category = cat_frequency_balance,
             problem_name = prob_sibilance, score = sibilance - clarity\<rparr>]
      else []) @
     (if crest < 6
      then [\<lparr>severity = Critical, category = cat_dynamics,
             problem_name = prob_over_compressed, score = \<bar>crest - 9\<bar>\<rparr>]
      else if crest > 15
      then [\<lparr>severity = Important, category = cat_dynamics,
             problem_name = prob_dynamics_wide, score = crest - 12\<rparr>]
      else []) @
     (if lvl < - 8
      then [\<lparr>severity = Important, category = cat_level_balance,
             problem_name = prob_buried, score = \<bar>lvl + 4\<bar>\<rparr>]
      else if lvl > - 1
      then [\<lparr>severity = Important, category = cat_level_balance,
             problem_name = prob_too_loud, score = \<bar>lvl + 4\<bar>\<rparr>]
      else [])"

text \<open>\<open>problems.sort(key=score, reverse=True)\<close>: a stable sort, largest score first.\<close>

definition sort_by_score_desc :: "problem list \<Rightarrow> problem list" where
  "sort_by_score_desc problems = sort_key (\<lambda>x. - score x) problems"

definition detect_vocal_problems ::
    "(string \<times> real) list \<Rightarrow> 'd analysis \<Rightarrow> int \<Rightarrow> string \<Rightarrow> py_error + problem list" where
  "detect_vocal_problems freq_bands base_analysis venue_capacity stage_volume =
     (case dict_get freq_bands ''clarity'' of Inl e \<Rightarrow> Inl e | Inr clarity \<Rightarrow>
      case dict_get freq_bands ''body'' of Inl e \<Rightarrow> Inl e | Inr body \<Rightarrow>
      case dict_get freq_bands ''sibilance'' of Inl e \<Rightarrow> Inl e | Inr sibilance \<Rightarrow>
      case dict_get freq_bands ''presence'' of Inl e \<Rightarrow> Inl e | Inr presence \<Rightarrow>
        Inr (sort_by_score_desc
               (vocal_rules clarity body sibilance (a_crest_factor base_analysis)
                  (a_level_vs_mix base_analysis))))"


section \<open>InstrumentAnalyzer: vocal recommendations\<close>

text \<open>A profile value counts when it is \<open>True\<close>; a missing key gives \<open>None\<close>.\<close>

definition truthy :: "bool option \<Rightarrow> bool" where
  "truthy v \<longleftrightarrow> v = Some True"

definition get_trend_note :: "trend option \<Rightarrow> ustr option" where
  "get_trend_note t =
     (case t of
        None \<Rightarrow> None
      | Some tr \<Rightarrow>
          (if status tr = Improving then Some note_improving
           else if status tr = Degrading then Some note_degrading
           else None))"

definition clarity_recommendation ::
    "mixer_specs option \<Rightarrow> pa_specs option \<Rightarrow> trend option \<Rightarrow> severity \<Rightarrow> recommendation" where
  "clarity_recommendation mixer_specs pa_specs t sev =
     \<lparr>priority = sev, title = title_clarity,
      approaches =
        [\<lparr>approach_method = meth_eq_basic\<rparr>, \<lparr>approach_method = meth_eq_comp\<rparr>] @
        (case mixer_specs of
           None \<Rightarrow> []
         | Some m \<Rightarrow> if truthy (has_dynamic_eq m) then [\<lparr>approach_method = meth_dynamic_eq\<rparr>] else []) @
        (case pa_specs of None \<Rightarrow> [] | Some p \<Rightarrow> [\<lparr>approach_method = meth_pa_adjust\<rparr>]),
      trend_note = get_trend_note t\<rparr>"

definition boxy_recommendation :: "trend option \<Rightarrow> severity \<Rightarrow> recommendation" where
  "boxy_recommendation t sev =
     \<lparr>priority = sev, title = title_boxy,
      approaches = [\<lparr>approach_method = meth_target_eq_cut\<rparr>, \<lparr>approach_method = meth_hpf_mid\<rparr>],
      trend_note = get_trend_note t\<rparr>"

definition sibilance_recommendation :: "mixer_specs option \<Rightarrow> severity \<Rightarrow> recommendation" where
  "sibilance_recommendation mixer_specs sev =
     \<lparr>priority = sev, title = title_sibilance,
      approaches =
        (case mixer_specs of
           None \<Rightarrow> []
         | Some m \<Rightarrow> if truthy (has_de_esser m) then [\<lparr>approach_method = meth_de_esser\<rparr>] else []) @
        [\<lparr>approach_method = meth_manual_eq_cut\<rparr>, \<lparr>approach_method = meth_mic_technique\<rparr>],
      trend_note = None\<rparr>"

definition dynamics_recommendation :: "(string \<times> real) list \<Rightarrow> severity \<Rightarrow> recommendation" where
  "dynamics_recommendation freq_bands sev =
     (let crest = (case map_of freq_bands ''crest_factor'' of None \<Rightarrow> 10 | Some c \<Rightarrow> c) in
      \<lparr>priority = sev, title = title_dynamics,
       approaches =
         (if crest < 6 then [\<lparr>approach_method = meth_comp_relax\<rparr>] else [\<lparr>approach_method = meth_comp_proper\<rparr>]),
       trend_note = None\<rparr>)"

fun recommendation_loop ::
    "mixer_specs option \<Rightarrow> pa_specs option \<Rightarrow> (string \<times> real) list \<Rightarrow> trend option \<Rightarrow>
     problem list \<Rightarrow> recommendation list \<Rightarrow> ustr list \<Rightarrow> recommendation list" where
  "recommendation_loop mixer_specs pa_specs freq_bands t [] recommendations addressed_categories =
     recommendations"
| "recommendation_loop mixer_specs pa_specs freq_bands t (p # rest) recommendations addressed_categories =
     (if (case t of
            None \<Rightarrow> False
          | Some tr \<Rightarrow>
              category p = cat_frequency_balance \<and>
              (case clarity_change tr of None \<Rightarrow> 0 | Some c \<Rightarrow> c) > 2)
      then recommendation_loop mixer_specs pa_specs freq_bands t rest recommendations addressed_categories
      else if category p \<in> set addressed_categories
      then recommendation_loop mixer_specs pa_specs freq_bands t rest recommendations addressed_categories
      else
        (let addressed = addressed_categories @ [category p] in
         if contains (problem_name p) word_clarity
         then recommendation_loop mixer_specs pa_specs freq_bands t rest
                (recommendations @ [clarity_recommendation mixer_specs pa_specs t (severity p)]) addressed
         else if contains (problem_name p) word_boxy
         then recommendation_loop mixer_specs pa_specs freq_bands t rest
                (recommendations @ [boxy_recommendation t (severity p)]) addressed
         else if contains (problem_name p) word_sibilance
         then recommendation_loop mixer_specs pa_specs freq_bands t rest
                (recommendations @ [sibilance_recommendation mixer_specs (severity p)]) addressed
         else if contains (category p) cat_dynamics
         then recommendation_loop mixer_specs pa_specs freq_bands t rest
                (recommendations @ [dynamics_recommendation freq_bands (severity p)]) addressed
         else recommendation_loop mixer_specs pa_specs freq_bands t rest recommendations addressed))"

definition generate_vocal_recommendations ::
    "mixer_specs option \<Rightarrow> pa_specs option \<Rightarrow> problem list \<Rightarrow> (string \<times> real) list \<Rightarrow>
     trend option \<Rightarrow> int \<Rightarrow> string \<Rightarrow> recommendation list" where
  "generate_vocal_recommendations mixer_specs pa_specs problems freq_bands t venue_capacity stage_volume =
     recommendation_loop mixer_specs pa_specs freq_bands t (take 3 problems) [] []"


section \<open>InstrumentAnalyzer: the vocal analyzer\<close>

definition vocal_bands :: "(string \<times> real \<times> real) list" where
  "vocal_bands =
     [(''fundamental'', 150, 400),
      (''body'', 400, 1000),
      (''clarity'', 2000, 4000),
      (''presence'', 4000, 6000),
      (''sibilance'', 6000, 8000),
      (''air'', 8000, 12000)]"

text \<open>
  \<open>20 * np.log10(np.mean(spectrum[mask]) + 1e-10)\<close>. For a band without a bin numpy
  gives NaN, which the model does not follow further: the value is \<open>None\<close> and the
  vocal analyzer stops with \<open>Nan_level\<close>. At the sample rate 22050 of the loader every
  vocal band holds bins.
\<close>

definition band_level :: "real list \<Rightarrow> real list \<Rightarrow> real \<Rightarrow> real \<Rightarrow> real option" where
  "band_level spectrum freqs low high =
     (let msk = map (\<lambda>f. f \<ge> low \<and> f < high) freqs in
      if list_ex (\<lambda>b. b) msk
      then Some (20 * log 10 (mean (select msk spectrum) + 1 / 10 ^ 10))
      else None)"

fun band_levels ::
    "real list \<Rightarrow> real list \<Rightarrow> (string \<times> real \<times> real) list \<Rightarrow> (string \<times> real) list \<Rightarrow>
     (string \<times> real) list option" where
  "band_levels spectrum freqs [] freq_bands = Some freq_bands"
| "band_levels spectrum freqs ((band_name, low, high) # rest) freq_bands =
     (case band_level spectrum freqs low high of
        None \<Rightarrow> None
      | Some level \<Rightarrow> band_levels spectrum freqs rest (freq_bands @ [(band_name, level)]))"

definition analyze_vocal ::
    "mixer_specs option \<Rightarrow> pa_specs option \<Rightarrow> real list \<Rightarrow> real list \<Rightarrow> int \<Rightarrow> string \<Rightarrow>
     'd analysis \<Rightarrow> py_error + vocal_detail" where
  "analyze_vocal mixer_specs pa_specs spectrum freqs venue_capacity stage_volume base_analysis =
     (case band_levels spectrum freqs vocal_bands [] of
        None \<Rightarrow> Inl Nan_level
      | Some freq_bands \<Rightarrow>
          (case detect_vocal_problems freq_bands base_analysis venue_capacity stage_volume of
             Inl e \<Rightarrow> Inl e
           | Inr problems \<Rightarrow>
               Inr \<lparr>d_freq_bands = freq_bands, d_issues = problems,
                    d_recommendations =
                      generate_vocal_recommendations mixer_specs pa_specs problems freq_bands
                        (a_trend base_analysis) venue_capacity stage_volume\<rparr>))"


section \<open>InstrumentAnalyzer: one stem, and the loop over the stems\<close>

text \<open>
  The frame-wise RMS of a stem is \<open>librosa.feature.rms(y=audio, hop_length=sr // 4)[0]\<close>;
  the source takes the percentiles of that sequence as it is.
\<close>

definition stem_dynamic_range :: "real list \<Rightarrow> real option" where
  "stem_dynamic_range rms_frames = p95_minus_p5 rms_frames"

text \<open>
  Calling a method binds the arguments to the parameters first; a call with another
  number of positional arguments than the definition has parameters raises
  \<open>TypeError\<close> and the body does not run.
\<close>

definition call_method :: "nat \<Rightarrow> nat \<Rightarrow> (py_error + 'r) \<Rightarrow> py_error + 'r" where
  "call_method n_params n_args body = (if n_args = n_params then body else Inl TypeError)"

text \<open>
  The number of parameters after \<open>self\<close> in the definition of the analyzer of each tag:
  \<open>_analyze_vocal(audio, spectrum, freqs, venue_capacity, stage_volume, base_analysis)\<close>,
  \<open>_analyze_kick(audio, spectrum, freqs, base_analysis)\<close>,
  \<open>_analyze_snare\<close>, \<open>_analyze_bass\<close>, \<open>_analyze_hihat\<close>, \<open>_analyze_tom\<close>
  \<open>(audio, spectrum, freqs)\<close>,
  \<open>_analyze_guitar\<close> and \<open>_analyze_keys\<close> \<open>(name, audio, spectrum, freqs)\<close>.
\<close>

fun n_params :: "tag \<Rightarrow> nat" where
  "n_params Vocal = 6"
| "n_params Kick = 4"
| "n_params Snare = 3"
| "n_params Bass = 3"
| "n_params Hihat = 3"
| "n_params Tom = 3"
| "n_params E_guitar = 4"
| "n_params A_guitar = 4"
| "n_params Keyboard = 4"
| "n_params Synth = 4"

text \<open>
  The number of arguments at the call in \<open>analyze_instrument\<close>: the vocal call passes
  six; the calls for kick, snare, bass, hihat and tom pass
  \<open>(audio, spectrum, freqs, analysis)\<close>; the calls for the guitars and the keys pass
  \<open>(name, audio, spectrum, freqs, analysis)\<close>.
\<close>

fun n_args :: "tag \<Rightarrow> nat" where
  "n_args Vocal = 6"
| "n_args Kick = 4"
| "n_args Snare = 4"
| "n_args Bass = 4"
| "n_args Hihat = 4"
| "n_args Tom = 4"
| "n_args E_guitar = 5"
| "n_args A_guitar = 5"
| "n_args Keyboard = 5"
| "n_args Synth = 5"

text \<open>\<open>analysis.update(detail)\<close> for the detail of the vocal analyzer and of another one.\<close>

definition update_vocal :: "'d analysis \<Rightarrow> vocal_detail \<Rightarrow> 'd analysis" where
  "update_vocal an d =
     an\<lparr>a_freq_bands := Some (d_freq_bands d), a_issues := d_issues d,
        a_recommendations := d_recommendations d\<rparr>"

definition update_other :: "'d analysis \<Rightarrow> 'd \<Rightarrow> 'd analysis" where
  "update_other an d = an\<lparr>a_other := Some d\<rparr>"

definition run_other ::
    "'d analyzer \<Rightarrow> tag \<Rightarrow> stem \<Rightarrow> 'd analysis \<Rightarrow> py_error + 'd analysis" where
  "run_other self name st an =
     (case call_method (n_params name) (n_args name) (self_other_analyzers self name st an) of
        Inl e \<Rightarrow> Inl e
      | Inr d \<Rightarrow> Inr (update_other an d))"

text \<open>The chain \<open>if name == 'vocal': ... elif name == 'kick': ...\<close> of the source.\<close>

definition dispatch ::
    "'d analyzer \<Rightarrow> tag \<Rightarrow> stem \<Rightarrow> int \<Rightarrow> string \<Rightarrow> 'd analysis \<Rightarrow> py_error + 'd analysis" where
  "dispatch self name st venue_capacity stage_volume an =
     (if name = Vocal
      then (case call_method (n_params Vocal) (n_args Vocal)
                   (analyze_vocal (self_mixer_specs self) (self_pa_specs self) (a_spectrum an)
                      (a_freqs an) venue_capacity stage_volume an) of
              Inl e \<Rightarrow> Inl e
            | Inr d \<Rightarrow> Inr (update_vocal an d))
      else if name = Kick then run_other self name st an
      else if name = Snare then run_other self name st an
      else if name = Bass then run_other self name st an
      else if name = Hihat then run_other self name st an
      else if name = Tom then run_other self name st an
      else if name \<in> {E_guitar, A_guitar} then run_other self name st an
      else if name \<in> {Keyboard, Synth} then run_other self name st an
      else Inr an)"

text \<open>
  \<open>analyze_instrument\<close>. \<open>np.max\<close> of an empty array raises \<open>ValueError\<close>; the loop of
  \<open>analyze_all\<close> passes non-empty stems only.
\<close>

definition analyze_instrument ::
    "'d analyzer \<Rightarrow> tag \<Rightarrow> stem \<Rightarrow> int \<Rightarrow> string \<Rightarrow> py_error + 'd analysis" where
  "analyze_instrument self name st venue_capacity stage_volume =
     (if stem_audio st = [] then Inl ValueError
      else
        (let rms = np_rms (stem_audio st);
             rms_level = level_db rms;
             peak = Max (set (map abs (stem_audio st)));
             peak_level = level_db peak;
             an = \<lparr>a_name = name,
                   a_rms_db = rms_level,
                   a_peak_db = peak_level,
                   a_crest_factor = peak_level - rms_level,
                   a_dynamic_range = stem_dynamic_range (stem_rms_frames st),
                   a_onset_strength =
                     (if length (stem_onset_env st) > 0 then mean (stem_onset_env st) else 0),
                   a_harmonic_ratio = np_rms (stem_harmonic st) / (rms + 1 / 10 ^ 10),
                   a_percussive_ratio = np_rms (stem_percussive st) / (rms + 1 / 10 ^ 10),
                   a_level_vs_mix = rms_level - self_overall_rms self,
                   a_spectrum = map mean (stem_stft_abs st),
                   a_freqs = stem_freqs st,
                   a_issues = [],
                   a_recommendations = [],
                   a_trend = None,
                   a_freq_bands = None,
                   a_other = None\<rparr>;
             an_with_trend =
               (case find_past_analysis (self_past_analyses self) name of
                  None \<Rightarrow> an\<lparr>a_trend := None\<rparr>
                | Some past_analysis \<Rightarrow>
                    an\<lparr>a_trend := Some (calculate_trend an past_analysis)\<rparr>)
         in dispatch self name st venue_capacity stage_volume an_with_trend))"

text \<open>
  The loop of \<open>analyze_all\<close> over the stems, in the order of the dictionary; an exception
  of \<open>analyze_instrument\<close> ends it. The pairwise rules of \<open>_analyze_relationships\<close> run
  after the loop and are not part of the model.
\<close>

fun analyze_stems ::
    "'d analyzer \<Rightarrow> (tag \<times> stem) list \<Rightarrow> int \<Rightarrow> string \<Rightarrow> (tag \<times> 'd analysis) list \<Rightarrow>
     py_error + (tag \<times> 'd analysis) list" where
  "analyze_stems self [] venue_capacity stage_volume analyses = Inr analyses"
| "analyze_stems self ((name, st) # rest) venue_capacity stage_volume analyses =
     (if length (stem_audio st) > 0
      then (case analyze_instrument self name st venue_capacity stage_volume of
              Inl e \<Rightarrow> Inl e
            | Inr an \<Rightarrow>
                analyze_stems self rest venue_capacity stage_volume (analyses @ [(name, an)]))
      else analyze_stems self rest venue_capacity stage_volume analyses)"


section \<open>Notions used in the statements\<close>

text \<open>
  What "duplicates suppressed, first-seen order preserved, unrecognized dropped" says of a
  list of optional tags: drop the misses, keep the first occurrence of each tag.
\<close>

function keep_first :: "'a list \<Rightarrow> 'a list" where
  "keep_first [] = []"
| "keep_first (x # xs) = x # keep_first (filter (\<lambda>y. y \<noteq> x) xs)"
  by pat_completeness auto
termination
  by (relation "measure length") (auto simp: less_Suc_eq_le)

definition recognized :: "ustr \<Rightarrow> tag option" where
  "recognized raw = find_tag mapping (py_lower (py_strip raw))"

text \<open>The two line-up texts of the claims: the four-item list with a repeated kick
  (katakana, separated by U+3001), and the single item "acoustic guitar" in katakana,
  with the alias "guitar" (U+30AE U+30BF U+30FC).\<close>

definition lineup_vocal_kick_kick_bass :: ustr where
  "lineup_vocal_kick_kick_bass =
     [12508, 12540, 12459, 12523, 12289, 12461, 12483, 12463, 12289,
      12461, 12483, 12463, 12289, 12505, 12540, 12473]"




text \<open>
  The bins of a band, by index, and the value the specification gives a band: the mean of
  the spectrum over those bins, or \<open>-100\<close> when there is none.
\<close>

definition bins_in :: "real list \<Rightarrow> real \<Rightarrow> real \<Rightarrow> nat set" where
  "bins_in freqs lo hi = {i. i < length freqs \<and> lo \<le> freqs ! i \<and> freqs ! i < hi}"

definition band_mean_db :: "real list \<Rightarrow> real list \<Rightarrow> real \<Rightarrow> real \<Rightarrow> real" where
  "band_mean_db freqs avg_spectrum lo hi =
     (if bins_in freqs lo hi = {} then - 100
      else (\<Sum>i \<in> bins_in freqs lo hi. avg_spectrum ! i) / real (card (bins_in freqs lo hi)))"

text \<open>The three attributes the match score counts.\<close>

definition near_capacity :: "session_metadata \<Rightarrow> session_metadata \<Rightarrow> bool" where
  "near_capacity c p \<longleftrightarrow>
     \<bar>get_default (meta_venue_capacity c) 0 - get_default (meta_venue_capacity p) 0\<bar> < 50"

definition same_mixer :: "session_metadata \<Rightarrow> equipment \<Rightarrow> bool" where
  "same_mixer c q \<longleftrightarrow> meta_mixer c = equip_mixer q"

definition same_pa :: "session_metadata \<Rightarrow> equipment \<Rightarrow> bool" where
  "same_pa c q \<longleftrightarrow> meta_pa_system c = equip_pa_system q"

text \<open>The console profile reports a de-esser.\<close>

definition offers_de_esser :: "mixer_specs option \<Rightarrow> bool" where
  "offers_de_esser mixer_specs \<longleftrightarrow>
     (case mixer_specs of None \<Rightarrow> False | Some m \<Rightarrow> truthy (has_de_esser m))"

definition de_esser_free :: "recommendation \<Rightarrow> bool" where
  "de_esser_free r \<longleftrightarrow>
     meth_de_esser \<notin> approach_method ` set (approaches r) \<and>
     (title r = title_sibilance \<longrightarrow>
        map approach_method (approaches r) = [meth_manual_eq_cut, meth_mic_technique])"

text \<open>What one turn of the loop appends, and the categories it has addressed after it.\<close>

definition turn_skips :: "trend option \<Rightarrow> problem \<Rightarrow> ustr list \<Rightarrow> bool" where
  "turn_skips t p addressed \<longleftrightarrow>
     (case t of
        None \<Rightarrow> False
      | Some tr \<Rightarrow>
          category p = cat_frequency_balance \<and>
          (case clarity_change tr of None \<Rightarrow> 0 | Some c \<Rightarrow> c) > 2) \<or>
     category p \<in> set addressed"

definition turn_appends ::
    "mixer_specs option \<Rightarrow> pa_specs option \<Rightarrow> (string \<times> real) list \<Rightarrow> trend option \<Rightarrow>
     problem \<Rightarrow> recommendation list" where
  "turn_appends mixer_specs pa_specs fb t p =
     (if contains (problem_name p) word_clarity
      then [clarity_recommendation mixer_specs pa_specs t (severity p)]
      else if contains (problem_name p) word_boxy
      then [boxy_recommendation t (severity p)]
      else if contains (problem_name p) word_sibilance
      then [sibilance_recommendation mixer_specs (severity p)]
      else if contains (category p) cat_dynamics
      then [dynamics_recommendation fb (severity p)]
      else [])"


section \<open>Example inputs\<close>

text \<open>Two console names and two loudspeaker names (ASCII): \<open>CL5\<close>, \<open>X32\<close>, \<open>JBL\<close>, \<open>d&b\<close>.\<close>

definition name_cl5 :: ustr where "name_cl5 = [67, 76, 53]"
definition name_x32 :: ustr where "name_x32 = [88, 51, 50]"
definition name_jbl :: ustr where "name_jbl = [74, 66, 76]"
definition name_dnb :: ustr where "name_dnb = [100, 38, 98]"

definition session_now :: session_metadata where
  "session_now =
     \<lparr>meta_venue_capacity = Some 150, meta_mixer = Some name_cl5,
      meta_pa_system = Some name_jbl\<rparr>"

definition session_other :: session_metadata where
  "session_other =
     \<lparr>meta_venue_capacity = Some 800, meta_mixer = Some name_x32,
      meta_pa_system = Some name_dnb\<rparr>"

definition entry_of :: "ustr \<Rightarrow> session_metadata \<Rightarrow> entry" where
  "entry_of i m =
     \<lparr>entry_id = i, timestamp = i, entry_metadata = m, analysis_snapshot = [],
      instruments = [],
      entry_equipment = \<lparr>equip_mixer = meta_mixer m, equip_pa_system = meta_pa_system m\<rparr>\<rparr>"

definition two_entries :: audio_database where
  "two_entries =
     \<lparr>history = [entry_of [49] session_other,
                 entry_of [50] (session_now\<lparr>meta_venue_capacity := Some 180\<rparr>)],
      db_file = Missing\<rparr>"

text \<open>A vocal stem's base analysis with a crest factor of 5 dB, 4 dB below the mix.\<close>

definition squashed_vocal :: "unit analysis" where
  "squashed_vocal =
     \<lparr>a_name = Vocal, a_rms_db = - 20, a_peak_db = - 15, a_crest_factor = 5,
      a_dynamic_range = None, a_onset_strength = 1, a_harmonic_ratio = 1 / 2,
      a_percussive_ratio = 1 / 2, a_level_vs_mix = - 4, a_spectrum = [], a_freqs = [],
      a_issues = [], a_recommendations = [], a_trend = None, a_freq_bands = None,
      a_other = None\<rparr>"

definition dull_boxy_bands :: "(string \<times> real) list" where
  "dull_boxy_bands =
     [(''fundamental'', - 20), (''body'', - 26), (''clarity'', - 36), (''presence'', - 38),
      (''sibilance'', - 40), (''air'', - 45)]"

definition sibilant_bands :: "(string \<times> real) list" where
  "sibilant_bands =
     [(''fundamental'', - 20), (''body'', - 30), (''clarity'', - 28), (''presence'', - 26),
      (''sibilance'', - 20), (''air'', - 35)]"

definition console_without_de_esser :: mixer_specs where
  "console_without_de_esser =
     \<lparr>mixer_name = Some name_x32, has_de_esser = Some False, has_dynamic_eq = Some False\<rparr>"

definition sibilant_problems :: "problem list" where
  "sibilant_problems = sort_by_score_desc (vocal_rules (- 28) (- 30) (- 20) 10 (- 4))"

definition dull_problems :: "problem list" where
  "dull_problems = sort_by_score_desc (vocal_rules (- 36) (- 26) (- 40) 5 (- 4))"

definition quieter_past :: past_instrument where
  "quieter_past =
     \<lparr>past_rms_db = Some (- 25), past_freq_bands = Some [(''clarity'', - 40)],
      has_other_keys = True\<rparr>"


definition half_sample_stem :: stem where
  "half_sample_stem =
     \<lparr>stem_audio = [1 / 2], stem_stft_abs = [[1]], stem_freqs = [0],
      stem_rms_frames = [1 / 2], stem_onset_env = [0], stem_harmonic = [1 / 2],
      stem_percussive = [0]\<rparr>"

definition plain_analyzer :: "unit analyzer" where
  "plain_analyzer =
     \<lparr>self_overall_rms = - 12, self_mixer_specs = None, self_pa_specs = None,
      self_past_analyses = [], self_other_analyzers = (\<lambda>name st an. Inr ())\<rparr>"



text \<open>The keys of the analysis snapshot that \<open>add_entry\<close> writes, a result dictionary of the mix
  analyzer with its numeric keys, and the snapshot read back after adding it to an empty
  store.\<close>

definition persisted_keys :: "string list" where
  "persisted_keys = [''rms_db'', ''peak_db'', ''stereo_width'', ''crest_factor'', ''band_energies'']"

definition small_mix_metrics :: "(string \<times> pyval) list" where
  "small_mix_metrics =
     [(''stereo_width'', Num 35), (''correlation'', Num (4 / 5)), (''peak_db'', Num (- 3)),
      (''rms_db'', Num (- 18)), (''crest_factor'', Num 15), (''dynamic_range'', Num 12),
      (''band_energies'', Arr [- 30, - 25, - 28, - 32, - 40, - 45, - 60]),
      (''avg_onset'', Num 2), (''max_onset'', Num 9), (''onset_density'', Num 3),
      (''sub_bass_ratio'', Num (- 5))]"

definition empty_database :: audio_database where
  "empty_database = open_database Missing"

definition reloaded_snapshot :: "(string \<times> pyval) list" where
  "reloaded_snapshot =
     (case add_entry empty_database small_mix_metrics session_now [49] [50] of
        Inl e \<Rightarrow> []
      | Inr (db', eid) \<Rightarrow> analysis_snapshot (last (history (open_database (db_file db')))))"

section \<open>Properties of the line-up parser\<close>

lemma find_tag_empty_item: "find_tag mapping [] = None"
  by (simp add: mapping_def py_lower_def lower_cp_def)

lemma keep_first_filter:
  "keep_first (filter P xs) = filter P (keep_first xs)"
proof (induction xs rule: keep_first.induct)
  case 1
  then show ?case by simp
next
  case (2 x xs)
  have comm: "filter (\<lambda>y. y \<noteq> x) (filter P xs) = filter P (filter (\<lambda>y. y \<noteq> x) xs)"
    by (simp add: conj_commute)
  show ?case
  proof (cases "P x")
    case True
    then show ?thesis using 2 comm by simp
  next
    case False
    have "filter P (filter (\<lambda>y. y \<noteq> x) xs) = filter P xs"
      using False by (induction xs) auto
    then show ?thesis using False 2 by simp
  qed
qed

lemma set_keep_first: "set (keep_first xs) = set xs"
  by (induction xs rule: keep_first.induct) auto

lemma distinct_keep_first: "distinct (keep_first xs)"
  by (induction xs rule: keep_first.induct) (auto simp: set_keep_first)

lemma parse_items_keep_first:
  "parse_items items acc =
     acc @ keep_first (filter (\<lambda>t. t \<notin> set acc) (List.map_filter recognized items))"
proof (induction items arbitrary: acc)
  case Nil
  then show ?case by (simp add: List.map_filter_simps)
next
  case (Cons raw items)
  show ?case
  proof (cases "recognized raw")
    case None
    then show ?thesis
      using Cons by (simp add: recognized_def List.map_filter_simps Let_def)
  next
    case (Some t)
    then have ne: "py_lower (py_strip raw) \<noteq> []"
      using find_tag_empty_item by (auto simp: recognized_def)
    show ?thesis
    proof (cases "t \<in> set acc")
      case True
      then show ?thesis
        using Cons Some ne by (simp add: recognized_def List.map_filter_simps Let_def)
    next
      case False
      have "filter (\<lambda>u. u \<notin> set (acc @ [t])) xs =
            filter (\<lambda>y. y \<noteq> t) (filter (\<lambda>u. u \<notin> set acc) xs)" for xs
        by (induction xs) auto
      then show ?thesis
        using Cons [of "acc @ [t]"] Some ne False
        by (simp add: recognized_def List.map_filter_simps Let_def keep_first_filter)
    qed
  qed
qed

text \<open>
  C7. The text of four katakana items "vocal, kick, kick, bass" separated by U+3001 parses
  to exactly \<open>[vocal, kick, bass]\<close>. For every text, the result is the list of tags
  recognized item by item, misses dropped and only the first occurrence of each tag kept,
  so it never holds a tag twice.
\<close>

theorem parse_lineup_vocal_kick_bass:
  "parse_lineup lineup_vocal_kick_kick_bass = [Vocal, Kick, Bass] \<and>
   parse_lineup text = keep_first (List.map_filter recognized (lineup_items text)) \<and>
   distinct (parse_lineup text)"
proof -
  have items: "lineup_items lineup_vocal_kick_kick_bass =
      [[12508, 12540, 12459, 12523], [12461, 12483, 12463], [12461, 12483, 12463],
       [12505, 12540, 12473]]"
    by (simp add: lineup_items_def lineup_vocal_kick_kick_bass_def replace_cp_def)
  have v: "find_tag mapping [12508, 12540, 12459, 12523] = Some Vocal"
    by (simp add: mapping_def py_lower_def lower_cp_def)
  have k: "find_tag mapping [12461, 12483, 12463] = Some Kick"
    by (simp add: mapping_def py_lower_def lower_cp_def)
  have b: "find_tag mapping [12505, 12540, 12473] = Some Bass"
    by (simp add: mapping_def py_lower_def lower_cp_def)
  have concrete: "parse_lineup lineup_vocal_kick_kick_bass = [Vocal, Kick, Bass]"
    unfolding parse_lineup_def items
    by (simp add: v k b py_lower_def lower_cp_def py_strip_def is_space_def)
  have general: "parse_lineup text = keep_first (List.map_filter recognized (lineup_items text))"
    by (simp add: parse_lineup_def parse_items_keep_first)
  show ?thesis
    using concrete general distinct_keep_first [of "List.map_filter recognized (lineup_items text)"]
    by simp
qed



section \<open>Properties of the frequency bands of the mix\<close>

lemma band_loop_map:
  "band_loop fs ss bs acc = acc @ map (\<lambda>(lo, hi, n). band_energy fs ss lo hi) bs"
  by (induction bs arbitrary: acc) auto

lemma select_nth:
  assumes "length fs = length ss"
  shows "select (map P fs) ss = map (\<lambda>i. ss ! i) (filter (\<lambda>i. P (fs ! i)) [0..<length fs])"
proof -
  have z: "zip (map P fs) ss = map (\<lambda>i. (P (fs ! i), ss ! i)) [0..<length fs]"
    using assms by (intro nth_equalityI) auto
  show ?thesis
    unfolding select_def z by (simp add: filter_map comp_def)
qed

lemma band_energy_spec:
  assumes "length fs = length ss"
  shows "band_energy fs ss lo hi = band_mean_db fs ss lo hi"
proof -
  let ?P = "\<lambda>f. lo \<le> f \<and> f < hi"
  let ?I = "filter (\<lambda>i. ?P (fs ! i)) [0..<length fs]"
  have setI: "set ?I = bins_in fs lo hi"
    by (auto simp: bins_in_def)
  have dI: "distinct ?I" by simp
  have ex: "list_ex (\<lambda>b. b) (map ?P fs) \<longleftrightarrow> bins_in fs lo hi \<noteq> {}"
    by (fastforce simp: list_ex_iff bins_in_def in_set_conv_nth)
  have len: "length (select (map ?P fs) ss) = card (bins_in fs lo hi)"
    using select_nth [OF assms, of ?P] distinct_card [OF dI] setI by simp
  have sm: "sum_list (select (map ?P fs) ss) = (\<Sum>i \<in> bins_in fs lo hi. ss ! i)"
    using select_nth [OF assms, of ?P] sum_list_distinct_conv_sum_set [OF dI, of "\<lambda>i. ss ! i"] setI
    by simp
  show ?thesis
    unfolding band_energy_def band_mean_db_def Let_def mean_def
    using ex len sm by simp
qed

text \<open>
  C8. Whatever the spectrum, \<open>band_energies\<close> has exactly seven values, one for each
  of the seven adjoining bands from 20 Hz to 16 kHz in ascending order; each value is the
  mean of the spectrum (in dB) over the bins inside the band, and \<open>-100\<close> for a band
  without bins. The bin frequencies and the spectrum have the same length, as the two
  librosa arrays have.
\<close>

theorem band_energies_seven:
  assumes "length freqs = length avg_spectrum"
  shows "length (analyze_frequency freqs avg_spectrum) = 7 \<and>
         analyze_frequency freqs avg_spectrum =
           map (\<lambda>(lo, hi). band_mean_db freqs avg_spectrum lo hi)
             [(20, 80), (80, 250), (250, 500), (500, 2000), (2000, 4000), (4000, 8000),
              (8000, 16000)]"
  using assms
  by (simp add: analyze_frequency_def band_loop_map bands_def band_energy_spec)

theorem band_energies_seven_witness:
  "length [0, 50, 60, 100 :: real] = length [- 10, - 20, - 30, - 40 :: real] \<and>
   length (analyze_frequency [0, 50, 60, 100] [- 10, - 20, - 30, - 40]) = 7 \<and>
   analyze_frequency [0, 50, 60, 100] [- 10, - 20, - 30, - 40] =
     [- 25, - 40, - 100, - 100, - 100, - 100, - 100]"
  using band_energies_seven [of "[0, 50, 60, 100]" "[- 10, - 20, - 30, - 40]"]
  by (simp add: analyze_frequency_def bands_def band_energy_def mean_def select_def)


section \<open>Properties of the match score\<close>

lemma find_similar_scores:
  "e \<in> set (find_similar db c n) \<Longrightarrow> similar_score c e > 20"
  by (auto simp: find_similar_def Let_def dest!: in_set_takeD)

lemma match_score_sum:
  "match_score c p q =
     (if near_capacity c p then 30 else 0) + (if same_mixer c q then 40 else 0) +
     (if same_pa c q then 30 else 0)"
  by (simp add: match_score_def near_capacity_def same_mixer_def same_pa_def Let_def)

text \<open>
  C6. The match score of a historical entry is 30 for capacities less than 50 apart, plus
  40 for the same console name, plus 30 for the same PA name. The match type is
  \<open>exact_match\<close> from 80, \<open>similar\<close> from 50, \<open>different\<close> below. All three matching is
  the score 100 and is exactly the case \<open>exact_match\<close>; none matching is the score 0.
  \<open>find_similar\<close> scores an entry the same way and returns no entry whose score does not
  exceed 20.
\<close>

theorem match_score_rules:
  "match_score c p q =
     (if near_capacity c p then 30 else 0) + (if same_mixer c q then 40 else 0) +
     (if same_pa c q then 30 else 0) \<and>
   get_match_type c p q =
     (if match_score c p q \<ge> 80 then Exact_match
      else if match_score c p q \<ge> 50 then Similar else Different) \<and>
   (match_score c p q = 100) = (near_capacity c p \<and> same_mixer c q \<and> same_pa c q) \<and>
   (get_match_type c p q = Exact_match) = (match_score c p q = 100) \<and>
   (match_score c p q = 0) = (\<not> near_capacity c p \<and> \<not> same_mixer c q \<and> \<not> same_pa c q) \<and>
   similar_score c e = match_score c (entry_metadata e) (entry_equipment e) \<and>
   (\<forall>x \<in> set (find_similar db c n). similar_score c x > 20)"
proof -
  have ty: "get_match_type c p q =
     (if match_score c p q \<ge> 80 then Exact_match
      else if match_score c p q \<ge> 50 then Similar else Different)"
    by (simp add: get_match_type_def Let_def)
  have all3: "(match_score c p q = 100) = (near_capacity c p \<and> same_mixer c q \<and> same_pa c q)"
    by (simp add: match_score_sum)
  have exact: "(get_match_type c p q = Exact_match) = (match_score c p q = 100)"
    by (simp add: ty match_score_sum)
  have none: "(match_score c p q = 0) =
      (\<not> near_capacity c p \<and> \<not> same_mixer c q \<and> \<not> same_pa c q)"
    by (simp add: match_score_sum)
  have same: "similar_score c e = match_score c (entry_metadata e) (entry_equipment e)"
    by (simp add: similar_score_def match_score_def Let_def)
  have excl: "\<forall>x \<in> set (find_similar db c n). similar_score c x > 20"
    using find_similar_scores by blast
  show ?thesis
    using match_score_sum [of c p q] ty all3 exact none same excl by blast
qed

theorem match_score_rules_witness:
  "find_similar two_entries session_now 3 =
     [entry_of [50] (session_now\<lparr>meta_venue_capacity := Some 180\<rparr>)] \<and>
   similar_score session_now (entry_of [50] (session_now\<lparr>meta_venue_capacity := Some 180\<rparr>))
     > 20 \<and>
   similar_score session_now (entry_of [49] session_other) = 0 \<and>
   same_mixer session_now (entry_equipment (entry_of [50] session_now)) \<and>
   same_pa session_now (entry_equipment (entry_of [50] session_now)) \<and>
   near_capacity session_now (session_now\<lparr>meta_venue_capacity := Some 180\<rparr>) \<and>
   match_score session_now (session_now\<lparr>meta_venue_capacity := Some 180\<rparr>)
     (entry_equipment (entry_of [50] session_now)) = 100 \<and>
   get_match_type session_now (session_now\<lparr>meta_venue_capacity := Some 180\<rparr>)
     (entry_equipment (entry_of [50] session_now)) = Exact_match"
proof -
  let ?p = "session_now\<lparr>meta_venue_capacity := Some 180\<rparr>"
  let ?q = "entry_equipment (entry_of [50] session_now)"
  note rules = match_score_rules [of session_now ?p ?q "entry_of [49] session_other"
      two_entries 3]
  have fs: "find_similar two_entries session_now 3 = [entry_of [50] ?p]"
    by (simp add: find_similar_def two_entries_def similar_score_def entry_of_def
          session_now_def session_other_def get_default_def name_cl5_def name_x32_def
          name_jbl_def name_dnb_def Let_def)
  have z: "similar_score session_now (entry_of [49] session_other) = 0"
    by (simp add: similar_score_def entry_of_def session_now_def session_other_def
          get_default_def name_cl5_def name_x32_def name_jbl_def name_dnb_def Let_def)
  have near: "near_capacity session_now ?p"
    by (simp add: near_capacity_def session_now_def get_default_def)
  have sm: "same_mixer session_now ?q" and sp: "same_pa session_now ?q"
    by (simp_all add: same_mixer_def same_pa_def entry_of_def)
  have excl: "\<forall>x \<in> set (find_similar two_entries session_now 3). similar_score session_now x > 20"
    using rules by (elim conjE)
  then have above: "similar_score session_now (entry_of [50] ?p) > 20"
    unfolding fs by simp
  have hundred: "(match_score session_now ?p ?q = 100) =
      (near_capacity session_now ?p \<and> same_mixer session_now ?q \<and> same_pa session_now ?q)"
    using rules by (elim conjE)
  have exact: "(get_match_type session_now ?p ?q = Exact_match) =
      (match_score session_now ?p ?q = 100)"
    using rules by (elim conjE)
  have score: "match_score session_now ?p ?q = 100"
    using hundred near sm sp by simp
  then have "get_match_type session_now ?p ?q = Exact_match"
    using exact by simp
  then show ?thesis
    using fs above z sm sp near score by (intro conjI)
qed


section \<open>Properties of the vocal issues\<close>

lemma names_distinct:
  "prob_low_clarity \<noteq> prob_boxy" "prob_low_clarity \<noteq> prob_sibilance"
  "prob_low_clarity \<noteq> prob_over_compressed" "prob_low_clarity \<noteq> prob_dynamics_wide"
  "prob_low_clarity \<noteq> prob_buried" "prob_low_clarity \<noteq> prob_too_loud"
  "prob_boxy \<noteq> prob_sibilance" "prob_boxy \<noteq> prob_over_compressed"
  "prob_boxy \<noteq> prob_dynamics_wide" "prob_boxy \<noteq> prob_buried" "prob_boxy \<noteq> prob_too_loud"
  "prob_sibilance \<noteq> prob_over_compressed" "prob_sibilance \<noteq> prob_dynamics_wide"
  "prob_sibilance \<noteq> prob_buried" "prob_sibilance \<noteq> prob_too_loud"
  "prob_over_compressed \<noteq> prob_dynamics_wide" "prob_over_compressed \<noteq> prob_buried"
  "prob_over_compressed \<noteq> prob_too_loud" "prob_dynamics_wide \<noteq> prob_buried"
  "prob_dynamics_wide \<noteq> prob_too_loud" "prob_buried \<noteq> prob_too_loud"
  by (simp_all add: prob_low_clarity_def prob_boxy_def prob_sibilance_def
        prob_over_compressed_def prob_dynamics_wide_def prob_buried_def prob_too_loud_def)

lemma sorted_desc_sort: "sorted_wrt (\<lambda>a b. score a \<ge> score b) (sort_by_score_desc ps)"
proof -
  have "sorted (map (\<lambda>x. - score x) (sort_key (\<lambda>x. - score x) ps))"
    by (rule sorted_sort_key)
  then show ?thesis
    by (simp add: sort_by_score_desc_def sorted_map sorted_wrt_iff_nth_less)
qed

lemma stable_sort:
  "filter (\<lambda>p. score p = k) (sort_by_score_desc ps) = filter (\<lambda>p. score p = k) ps"
proof -
  have "filter (\<lambda>y. - score y = - k) (sort_key (\<lambda>x. - score x) ps) =
        filter (\<lambda>y. - score y = - k) ps"
    by (rule sort_key_stable)
  then show ?thesis by (simp add: sort_by_score_desc_def)
qed

text \<open>
  C5. For the band levels of a vocal stem, the detection returns a list in which a
  low-clarity issue stands exactly when the 2-4 kHz level is below -30 dB, critical below
  -35 dB and important otherwise; an over-compression issue, always critical, exactly when
  the crest factor is below 6 dB; a boxiness issue exactly when the body level exceeds the
  clarity level by more than 8 dB. The list is in descending order of score, and the
  issues of equal score stand in the order in which the rules found them.
\<close>

theorem vocal_issue_thresholds:
  assumes "map_of freq_bands ''clarity'' = Some clarity"
    and "map_of freq_bands ''body'' = Some body"
    and "map_of freq_bands ''sibilance'' = Some sibilance"
    and "map_of freq_bands ''presence'' = Some presence"
  shows "\<exists>ps. detect_vocal_problems freq_bands base vc sv = Inr ps \<and>
     ((\<exists>p \<in> set ps. problem_name p = prob_low_clarity) \<longleftrightarrow> clarity < - 30) \<and>
     (\<forall>p \<in> set ps. problem_name p = prob_low_clarity \<longrightarrow>
        severity p = (if clarity < - 35 then Critical else Important)) \<and>
     ((\<exists>p \<in> set ps. problem_name p = prob_over_compressed) \<longleftrightarrow> a_crest_factor base < 6) \<and>
     (\<forall>p \<in> set ps. problem_name p = prob_over_compressed \<longrightarrow> severity p = Critical) \<and>
     ((\<exists>p \<in> set ps. problem_name p = prob_boxy) \<longleftrightarrow> body > clarity + 8) \<and>
     sorted_wrt (\<lambda>a b. score a \<ge> score b) ps \<and>
     (\<forall>k. filter (\<lambda>p. score p = k) ps =
          filter (\<lambda>p. score p = k)
            (vocal_rules clarity body sibilance (a_crest_factor base) (a_level_vs_mix base)))"
proof -
  let ?rules = "vocal_rules clarity body sibilance (a_crest_factor base) (a_level_vs_mix base)"
  let ?ps = "sort_by_score_desc ?rules"
  have det: "detect_vocal_problems freq_bands base vc sv = Inr ?ps"
    using assms by (simp add: detect_vocal_problems_def dict_get_def)
  have set_ps: "set ?ps = set ?rules"
    by (simp add: sort_by_score_desc_def)
  have c1: "(\<exists>p \<in> set ?rules. problem_name p = prob_low_clarity) \<longleftrightarrow> clarity < - 30"
    by (auto simp: vocal_rules_def names_distinct names_distinct [symmetric])
  have c2: "\<forall>p \<in> set ?rules. problem_name p = prob_low_clarity \<longrightarrow>
        severity p = (if clarity < - 35 then Critical else Important)"
    by (auto simp: vocal_rules_def names_distinct names_distinct [symmetric])
  have c3: "(\<exists>p \<in> set ?rules. problem_name p = prob_over_compressed) \<longleftrightarrow>
        a_crest_factor base < 6"
    by (auto simp: vocal_rules_def names_distinct names_distinct [symmetric])
  have c4: "\<forall>p \<in> set ?rules. problem_name p = prob_over_compressed \<longrightarrow> severity p = Critical"
    by (auto simp: vocal_rules_def names_distinct names_distinct [symmetric])
  have c5: "(\<exists>p \<in> set ?rules. problem_name p = prob_boxy) \<longleftrightarrow> body > clarity + 8"
    by (auto simp: vocal_rules_def names_distinct names_distinct [symmetric])
  show ?thesis
    using det c1 c2 c3 c4 c5 sorted_desc_sort [of ?rules] stable_sort [of _ ?rules]
    unfolding set_ps [symmetric] by blast
qed


theorem vocal_issue_thresholds_witness:
  "map_of dull_boxy_bands ''clarity'' = Some (- 36) \<and>
   map_of dull_boxy_bands ''body'' = Some (- 26) \<and>
   map_of dull_boxy_bands ''sibilance'' = Some (- 40) \<and>
   map_of dull_boxy_bands ''presence'' = Some (- 38) \<and>
   (\<exists>ps. detect_vocal_problems dull_boxy_bands squashed_vocal 150 ''medium'' = Inr ps \<and>
      map problem_name ps = [prob_low_clarity, prob_boxy, prob_over_compressed] \<and>
      map severity ps = [Critical, Important, Critical] \<and>
      map score ps = [11, 10, 4] \<and>
      sorted_wrt (\<lambda>a b. score a \<ge> score b) ps)"
proof -
  have h1: "map_of dull_boxy_bands ''clarity'' = Some (- 36)"
    and h2: "map_of dull_boxy_bands ''body'' = Some (- 26)"
    and h3: "map_of dull_boxy_bands ''sibilance'' = Some (- 40)"
    and h4: "map_of dull_boxy_bands ''presence'' = Some (- 38)"
    by (simp_all add: dull_boxy_bands_def)
  have ev: "detect_vocal_problems dull_boxy_bands squashed_vocal 150 ''medium'' =
      Inr [\<lparr>severity = Critical, category = cat_frequency_balance,
             problem_name = prob_low_clarity, score = 11\<rparr>,
           \<lparr>severity = Important, category = cat_frequency_balance,
             problem_name = prob_boxy, score = 10\<rparr>,
           \<lparr>severity = Critical, category = cat_dynamics,
             problem_name = prob_over_compressed, score = 4\<rparr>]"
    by (simp add: detect_vocal_problems_def dict_get_def dull_boxy_bands_def
          squashed_vocal_def vocal_rules_def sort_by_score_desc_def)
  obtain ps where ps: "detect_vocal_problems dull_boxy_bands squashed_vocal 150 ''medium'' = Inr ps"
    and srt: "sorted_wrt (\<lambda>a b. score a \<ge> score b) ps"
    using vocal_issue_thresholds [OF h1 h2 h3 h4, of squashed_vocal 150 "''medium''"]
    by (elim exE conjE)
  have names: "map problem_name ps = [prob_low_clarity, prob_boxy, prob_over_compressed]"
    and sevs: "map severity ps = [Critical, Important, Critical]"
    and scores: "map score ps = [11, 10, 4]"
    using ps ev by auto
  have "detect_vocal_problems dull_boxy_bands squashed_vocal 150 ''medium'' = Inr ps \<and>
      map problem_name ps = [prob_low_clarity, prob_boxy, prob_over_compressed] \<and>
      map severity ps = [Critical, Important, Critical] \<and>
      map score ps = [11, 10, 4] \<and>
      sorted_wrt (\<lambda>a b. score a \<ge> score b) ps"
    using ps names sevs scores srt by (intro conjI)
  then have ex: "\<exists>ps. detect_vocal_problems dull_boxy_bands squashed_vocal 150 ''medium'' = Inr ps \<and>
      map problem_name ps = [prob_low_clarity, prob_boxy, prob_over_compressed] \<and>
      map severity ps = [Critical, Important, Critical] \<and>
      map score ps = [11, 10, 4] \<and>
      sorted_wrt (\<lambda>a b. score a \<ge> score b) ps"
    by (rule exI)
  show ?thesis
    using h1 h2 h3 h4 ex by (intro conjI)
qed


section \<open>Properties of the vocal recommendations\<close>

lemma de_esser_free_clarity:
  "de_esser_free (clarity_recommendation mixer_specs pa_specs t s)"
  by (auto simp: de_esser_free_def clarity_recommendation_def meth_de_esser_def
        meth_eq_basic_def meth_eq_comp_def meth_dynamic_eq_def meth_pa_adjust_def
        title_clarity_def title_sibilance_def split: option.splits)

lemma de_esser_free_boxy: "de_esser_free (boxy_recommendation t s)"
  by (simp add: de_esser_free_def boxy_recommendation_def meth_de_esser_def
        meth_target_eq_cut_def meth_hpf_mid_def title_boxy_def title_sibilance_def)

lemma de_esser_free_sibilance:
  "\<not> offers_de_esser mixer_specs \<Longrightarrow> de_esser_free (sibilance_recommendation mixer_specs s)"
  by (auto simp: de_esser_free_def sibilance_recommendation_def offers_de_esser_def
        meth_de_esser_def meth_manual_eq_cut_def meth_mic_technique_def split: option.splits)

lemma de_esser_free_dynamics: "de_esser_free (dynamics_recommendation fb s)"
  by (simp add: de_esser_free_def dynamics_recommendation_def Let_def meth_de_esser_def
        meth_comp_relax_def meth_comp_proper_def title_dynamics_def title_sibilance_def)

lemma loop_step:
  "recommendation_loop mixer_specs pa_specs fb t (p # ps) acc addressed =
     (if turn_skips t p addressed
      then recommendation_loop mixer_specs pa_specs fb t ps acc addressed
      else recommendation_loop mixer_specs pa_specs fb t ps
             (acc @ turn_appends mixer_specs pa_specs fb t p) (addressed @ [category p]))"
  by (simp add: turn_skips_def turn_appends_def Let_def)

lemma turn_appends_de_esser_free:
  assumes "\<not> offers_de_esser mixer_specs"
  shows "\<forall>r \<in> set (turn_appends mixer_specs pa_specs fb t p). de_esser_free r"
  using de_esser_free_clarity de_esser_free_boxy de_esser_free_dynamics
    de_esser_free_sibilance [OF assms]
  by (simp add: turn_appends_def)

lemma loop_de_esser_free:
  assumes "\<not> offers_de_esser mixer_specs" and "\<forall>r \<in> set acc. de_esser_free r"
  shows "\<forall>r \<in> set (recommendation_loop mixer_specs pa_specs fb t ps acc addressed). de_esser_free r"
  using assms(2)
proof (induction ps arbitrary: acc addressed)
  case Nil
  then show ?case by simp
next
  case (Cons p ps)
  show ?case
  proof (cases "turn_skips t p addressed")
    case True
    then show ?thesis
      using Cons.IH [OF Cons.prems] by (simp only: loop_step if_True)
  next
    case False
    have "\<forall>r \<in> set (acc @ turn_appends mixer_specs pa_specs fb t p). de_esser_free r"
      using Cons.prems turn_appends_de_esser_free [OF assms(1)] by auto
    then show ?thesis
      using Cons.IH False by (simp only: loop_step if_False)
  qed
qed

text \<open>
  C9. When the console profile does not report a de-esser (the flag is false or missing,
  or there is no profile), no recommendation of a vocal diagnosis holds a de-esser
  approach, and the sibilance recommendation offers exactly the manual EQ cut and the
  microphone technique, in this order.
\<close>

theorem no_de_esser_without_capability:
  assumes "\<not> offers_de_esser mixer_specs"
  shows "\<forall>r \<in> set (generate_vocal_recommendations mixer_specs pa_specs problems fb t vc sv).
           meth_de_esser \<notin> approach_method ` set (approaches r) \<and>
           (title r = title_sibilance \<longrightarrow>
              map approach_method (approaches r) = [meth_manual_eq_cut, meth_mic_technique])"
  using loop_de_esser_free [OF assms, of "[]" pa_specs fb t "take 3 problems" "[]"]
  by (simp add: generate_vocal_recommendations_def de_esser_free_def)



lemma sibilant_problems_eval:
  "sibilant_problems =
     [\<lparr>severity = Important, category = cat_frequency_balance,
        problem_name = prob_sibilance, score = 8\<rparr>]"
  by (simp add: sibilant_problems_def vocal_rules_def sort_by_score_desc_def)

lemma dull_problems_eval:
  "dull_problems =
     [\<lparr>severity = Critical, category = cat_frequency_balance,
        problem_name = prob_low_clarity, score = 11\<rparr>,
      \<lparr>severity = Important, category = cat_frequency_balance,
        problem_name = prob_boxy, score = 10\<rparr>,
      \<lparr>severity = Critical, category = cat_dynamics,
        problem_name = prob_over_compressed, score = 4\<rparr>]"
  by (simp add: dull_problems_def vocal_rules_def sort_by_score_desc_def)

lemma word_tests:
  "contains prob_low_clarity word_clarity"
  "\<not> contains prob_boxy word_clarity" "contains prob_boxy word_boxy"
  "\<not> contains prob_sibilance word_clarity" "\<not> contains prob_sibilance word_boxy"
  "contains prob_sibilance word_sibilance"
  "\<not> contains prob_over_compressed word_clarity" "\<not> contains prob_over_compressed word_boxy"
  "\<not> contains prob_over_compressed word_sibilance"
  "contains cat_dynamics cat_dynamics"
  "cat_dynamics \<noteq> cat_frequency_balance"
  by (simp_all add: prob_low_clarity_def prob_boxy_def prob_sibilance_def
        prob_over_compressed_def word_clarity_def word_boxy_def word_sibilance_def
        cat_dynamics_def cat_frequency_balance_def)

theorem no_de_esser_without_capability_witness:
  "offers_de_esser (Some console_without_de_esser) = False \<and>
   generate_vocal_recommendations (Some console_without_de_esser) None sibilant_problems
       sibilant_bands None 150 ''medium'' =
     [sibilance_recommendation (Some console_without_de_esser) Important] \<and>
   title (sibilance_recommendation (Some console_without_de_esser) Important) =
     title_sibilance \<and>
   map approach_method
       (approaches (sibilance_recommendation (Some console_without_de_esser) Important)) =
     [meth_manual_eq_cut, meth_mic_technique]"
proof -
  let ?r = "sibilance_recommendation (Some console_without_de_esser) Important"
  have h: "\<not> offers_de_esser (Some console_without_de_esser)"
    by (simp add: offers_de_esser_def console_without_de_esser_def truthy_def)
  have ev: "generate_vocal_recommendations (Some console_without_de_esser) None
       sibilant_problems sibilant_bands None 150 ''medium'' = [?r]"
    by (simp add: generate_vocal_recommendations_def sibilant_problems_eval word_tests
          Let_def)
  have ti: "title ?r = title_sibilance"
    by (simp add: sibilance_recommendation_def)
  have "\<forall>r \<in> set [?r].
      meth_de_esser \<notin> approach_method ` set (approaches r) \<and>
      (title r = title_sibilance \<longrightarrow>
         map approach_method (approaches r) = [meth_manual_eq_cut, meth_mic_technique])"
    using no_de_esser_without_capability [OF h, of None sibilant_problems sibilant_bands None
        150 "''medium''"]
    unfolding ev .
  then have "map approach_method (approaches ?r) = [meth_manual_eq_cut, meth_mic_technique]"
    using ti by simp
  then show ?thesis
    using h ev ti by (intro conjI) simp_all
qed


section \<open>Properties of the dynamic range\<close>


lemma percentile_pair:
  assumes "a \<le> b"
  shows "percentile [a, b] 95 = Some (a + 19 / 20 * (b - a))"
    and "percentile [a, b] 5 = Some (a + 1 / 20 * (b - a))"
proof -
  have s: "sort [a, b] = [a, b]" using assms by simp
  have f95: "nat \<lfloor>(95::real) / 100\<rfloor> = 0" by simp
  have f5: "nat \<lfloor>(5::real) / 100\<rfloor> = 0" by simp
  show "percentile [a, b] 95 = Some (a + 19 / 20 * (b - a))"
    unfolding percentile_def Let_def s using f95 by simp
  show "percentile [a, b] 5 = Some (a + 1 / 20 * (b - a))"
    unfolding percentile_def Let_def s using f5 by simp
qed

lemma p95_minus_p5_pair:
  assumes "a \<le> b"
  shows "p95_minus_p5 [a, b] = Some (9 / 10 * (b - a))"
  using percentile_pair [OF assms] by (simp add: p95_minus_p5_def field_simps)

lemma log10_quarter: "log 10 (1 / 4) < - (1 / 2)"
proof -
  have "sqrt 10 < (4::real)" by (rule real_less_lsqrt) simp_all
  then have "(10::real) powr (1 / 2) < 4" by (simp add: powr_half_sqrt)
  then have "1 / 2 < log 10 4"
    using less_log_iff [of 10 4 "1 / 2"] by (simp del: powr_numeral)
  moreover have "log 10 (1 / 4) = - log 10 4" by (simp add: log_divide)
  ultimately show ?thesis by simp
qed

text \<open>
  C2. For the frame-wise RMS sequence \<open>[0.1, 1.0]\<close> the stem analyzer stores the
  dynamic range 0.81, the difference of the percentiles of the linear values. The
  whole-mix analyzer, on the same sequence, takes the percentiles of the values in
  decibels and gets more than 9 dB (about 18 dB). The stem metric is not the percentile
  difference of the RMS sequence in dB.
\<close>

theorem stem_dynamic_range_is_linear:
  "stem_dynamic_range [1 / 10, 1] = Some (81 / 100) \<and>
   (\<exists>d. mix_dynamic_range [1 / 10, 1] = Some d \<and> 9 < d)"
proof -
  let ?a = "20 * log 10 (1 / 10 + 1 / 10 ^ 10 :: real)"
  let ?b = "20 * log 10 (1 + 1 / 10 ^ 10 :: real)"
  have stem: "stem_dynamic_range [1 / 10, 1] = Some (81 / 100)"
    using p95_minus_p5_pair [of "1 / 10" 1] by (simp add: stem_dynamic_range_def)
  have lo: "log 10 (1 / 10 + 1 / 10 ^ 10 :: real) \<le> log 10 (1 / 4)"
    by (subst log_le_cancel_iff) simp_all
  have hi: "0 \<le> log 10 (1 + 1 / 10 ^ 10 :: real)"
    by (rule zero_le_log_cancel_iff [THEN iffD2]) simp_all
  have gap: "10 < ?b - ?a" using lo hi log10_quarter by linarith
  then have le: "?a \<le> ?b" by linarith
  have mix: "mix_dynamic_range [1 / 10, 1] = Some (9 / 10 * (?b - ?a))"
    using p95_minus_p5_pair [OF le] by (simp add: mix_dynamic_range_def Let_def)
  have scale: "9 < 9 / 10 * x" if "10 < x" for x :: real
    using that by simp
  have "9 < 9 / 10 * (?b - ?a)" using gap by (rule scale)
  with stem mix show ?thesis by blast
qed


section \<open>Properties of the dispatch\<close>

lemma call_binds:
  "call_method (n_params Vocal) (n_args Vocal) body = body"
  "call_method (n_params Kick) (n_args Kick) body = body"
  by (simp_all add: call_method_def)

lemma run_other_type_error:
  assumes "name \<notin> {Vocal, Kick}"
  shows "run_other self name st an = Inl TypeError"
  using assms by (cases name) (simp_all add: run_other_def call_method_def)

lemma dispatch_type_error:
  assumes "name \<notin> {Vocal, Kick}"
  shows "dispatch self name st vc sv an = Inl TypeError"
  using assms run_other_type_error [OF assms]
  by (cases name) (simp_all add: dispatch_def)

text \<open>
  C1. The analyzers of snare, bass, hihat and tom are defined with three parameters and
  called with four arguments, those of the guitars and the keys with four parameters and
  called with five. For each of these eight recognized tags the analysis of a non-empty
  stem therefore raises \<open>TypeError\<close> before any sub-band analysis runs, and the loop
  over the stems fails with it; only the vocal and kick calls bind their arguments.
\<close>

theorem other_analyzers_raise_type_error:
  assumes "name \<notin> {Vocal, Kick}" and "stem_audio st \<noteq> []"
  shows "analyze_instrument self name st vc sv = Inl TypeError \<and>
         analyze_stems self [(name, st)] vc sv [] = Inl TypeError"
proof -
  have one: "analyze_instrument self name st vc sv = Inl TypeError"
    using assms(2)
    by (simp add: analyze_instrument_def Let_def dispatch_type_error [OF assms(1)])
  then show ?thesis using assms(2) by simp
qed

theorem other_analyzers_raise_type_error_witness:
  "analyze_instrument plain_analyzer Snare half_sample_stem 150 ''medium'' = Inl TypeError \<and>
   analyze_stems plain_analyzer [(Snare, half_sample_stem)] 150 ''medium'' [] = Inl TypeError"
proof -
  have a: "Snare \<notin> {Vocal, Kick}" by simp
  have b: "stem_audio half_sample_stem \<noteq> []" by (simp add: half_sample_stem_def)
  show ?thesis by (rule other_analyzers_raise_type_error [OF a b])
qed


section \<open>Properties of the trend\<close>

lemma trend_without_bands:
  "clarity_change (calculate_trend (current\<lparr>a_freq_bands := None\<rparr>) past) = None"
  by (simp add: calculate_trend_def Let_def split: option.splits)

lemma dispatch_keeps_trend:
  assumes "dispatch self name st vc sv an = Inr an'"
  shows "a_trend an' = a_trend an"
  using assms
  by (auto simp: dispatch_def run_other_def update_vocal_def update_other_def
        split: if_splits sum.splits)

text \<open>
  Every trend that \<open>analyze_instrument\<close> attaches to an analysis lacks
  \<open>clarity_change\<close>, whatever the stored diagnosis holds.
\<close>

lemma analyze_instrument_trend_no_clarity:
  assumes "analyze_instrument self name st vc sv = Inr an" and "a_trend an = Some t"
  shows "clarity_change t = None"
proof -
  obtain base where
    d: "dispatch self name st vc sv
          (case find_past_analysis (self_past_analyses self) name of
             None \<Rightarrow> base\<lparr>a_trend := None\<rparr>
           | Some past_analysis \<Rightarrow> base\<lparr>a_trend := Some (calculate_trend base past_analysis)\<rparr>)
        = Inr an"
    and nb: "a_freq_bands base = None"
    using assms(1)
    by (auto simp: analyze_instrument_def Let_def split: if_splits)
  show ?thesis
  proof (cases "find_past_analysis (self_past_analyses self) name")
    case None
    then have "a_trend an = None"
      using dispatch_keeps_trend [OF d] by simp
    then show ?thesis using assms(2) by simp
  next
    case (Some past)
    then have "a_trend an = Some (calculate_trend base past)"
      using dispatch_keeps_trend [OF d] by simp
    then have "t = calculate_trend base past" using assms(2) by simp
    then show ?thesis
      using nb by (simp add: calculate_trend_def Let_def split: option.splits)
  qed
qed

text \<open>
  C3. The trend status follows the stated rule: it is other than stable exactly when
  the level differs from the stored one by more than 2 dB, and improving exactly when it
  rose by more than 2 dB. The skipping of recommendations for an improving trend, which
  the generator attempts for the category "frequency balance" through the trend's
  \<open>clarity_change\<close>, does not happen: \<open>analyze_instrument\<close> computes the trend from
  the base analysis, which has no \<open>freq_bands\<close> yet, so \<open>clarity_change\<close> is never
  set. For a vocal stem 5 dB louder and 4 dB clearer than its stored diagnosis the status
  is improving and the clarity recommendation is generated all the same; computed with
  the band levels present, the same trend has a \<open>clarity_change\<close> of 4 dB and the
  clarity recommendation is skipped.
\<close>

theorem improving_trend_not_skipped:
  "(status (calculate_trend current past) \<noteq> Stable) =
     (\<bar>a_rms_db current - get_default (past_rms_db past) (a_rms_db current)\<bar> > 2) \<and>
   (status (calculate_trend current past) = Improving) =
     (a_rms_db current - get_default (past_rms_db past) (a_rms_db current) > 2) \<and>
   clarity_change (calculate_trend (current\<lparr>a_freq_bands := None\<rparr>) past) = None \<and>
   a_freq_bands squashed_vocal = None \<and>
   detect_vocal_problems dull_boxy_bands squashed_vocal 150 ''medium'' = Inr dull_problems \<and>
   category (hd dull_problems) = cat_frequency_balance \<and>
   status (calculate_trend squashed_vocal quieter_past) = Improving \<and>
   map title (generate_vocal_recommendations None None dull_problems dull_boxy_bands
                (Some (calculate_trend squashed_vocal quieter_past)) 150 ''medium'') =
     [title_clarity, title_dynamics] \<and>
   clarity_change
     (calculate_trend (squashed_vocal\<lparr>a_freq_bands := Some dull_boxy_bands\<rparr>) quieter_past) =
     Some 4 \<and>
   map title (generate_vocal_recommendations None None dull_problems dull_boxy_bands
                (Some (calculate_trend (squashed_vocal\<lparr>a_freq_bands := Some dull_boxy_bands\<rparr>)
                         quieter_past)) 150 ''medium'') =
     [title_dynamics]"
proof -
  let ?late = "calculate_trend (squashed_vocal\<lparr>a_freq_bands := Some dull_boxy_bands\<rparr>) quieter_past"
  have s1: "(status (calculate_trend current past) \<noteq> Stable) =
     (\<bar>a_rms_db current - get_default (past_rms_db past) (a_rms_db current)\<bar> > 2)"
    by (simp add: calculate_trend_def Let_def)
  have s2: "(status (calculate_trend current past) = Improving) =
     (a_rms_db current - get_default (past_rms_db past) (a_rms_db current) > 2)"
    by (auto simp: calculate_trend_def Let_def)
  have nb: "clarity_change (calculate_trend (current\<lparr>a_freq_bands := None\<rparr>) past) = None"
    by (simp add: calculate_trend_def Let_def split: option.splits)
  have fb: "a_freq_bands squashed_vocal = None"
    by (simp add: squashed_vocal_def)
  have det: "detect_vocal_problems dull_boxy_bands squashed_vocal 150 ''medium'' = Inr dull_problems"
    by (simp add: detect_vocal_problems_def dict_get_def dull_boxy_bands_def
          squashed_vocal_def dull_problems_def)
  have cat: "category (hd dull_problems) = cat_frequency_balance"
    by (simp add: dull_problems_eval)
  have st: "status (calculate_trend squashed_vocal quieter_past) = Improving"
    by (simp add: calculate_trend_def squashed_vocal_def quieter_past_def get_default_def
          Let_def)
  have cc: "clarity_change (calculate_trend squashed_vocal quieter_past) = None"
    by (simp add: calculate_trend_def squashed_vocal_def quieter_past_def Let_def)
  have gen: "map title (generate_vocal_recommendations None None dull_problems dull_boxy_bands
                (Some (calculate_trend squashed_vocal quieter_past)) 150 ''medium'') =
     [title_clarity, title_dynamics]"
    using word_tests(11)
    by (simp add: generate_vocal_recommendations_def dull_problems_eval word_tests cc
          clarity_recommendation_def dynamics_recommendation_def Let_def)
  have cc_late: "clarity_change ?late = Some 4"
    by (simp add: calculate_trend_def squashed_vocal_def quieter_past_def dull_boxy_bands_def
          band_or_zero_def Let_def)
  have gen_late: "map title (generate_vocal_recommendations None None dull_problems
                dull_boxy_bands (Some ?late) 150 ''medium'') = [title_dynamics]"
    using word_tests(11)
    by (simp add: generate_vocal_recommendations_def dull_problems_eval word_tests cc_late
          dynamics_recommendation_def Let_def)
  show ?thesis
    using s1 s2 nb fb det cat st gen cc_late gen_late by (intro conjI)
qed



section \<open>Properties of the history store\<close>


text \<open>
  C4 (as amended). After \<open>add_entry\<close> succeeds, opening the store again from the file
  gives the old history followed by one new entry with the returned id. Its analysis
  snapshot holds exactly the keys \<open>rms_db\<close>, \<open>peak_db\<close>, \<open>stereo_width\<close>,
  \<open>crest_factor\<close> and \<open>band_energies\<close>, and each of them that the result dictionary
  holds comes back with the same value (so within any tolerance). No other numeric key
  of the result is stored.
\<close>

theorem history_round_trip:
  assumes "add_entry db res md now_id now_iso = Inr (db', eid)"
  shows "\<exists>e. history (open_database (db_file db')) = history db @ [e] \<and>
           entry_id e = eid \<and>
           map fst (analysis_snapshot e) = persisted_keys \<and>
           (\<forall>k \<in> set persisted_keys. \<forall>v. map_of res k = Some v \<longrightarrow>
              map_of (analysis_snapshot e) k = Some v)"
proof -
  from assms obtain rms peak width crest where
    g1: "get_float res ''rms_db'' = Inr rms" and
    g2: "get_float res ''peak_db'' = Inr peak" and
    g3: "get_float res ''stereo_width'' = Inr width" and
    g4: "get_float res ''crest_factor'' = Inr crest"
    by (auto simp: add_entry_def split: sum.splits)
  define snap where "snap =
     [(''rms_db'', Num rms), (''peak_db'', Num peak),
      (''stereo_width'', Num width), (''crest_factor'', Num crest),
      (''band_energies'',
         (case map_of res ''band_energies'' of None \<Rightarrow> Arr [] | Some v \<Rightarrow> v))]"
  define e where "e =
     \<lparr>entry_id = now_id, timestamp = now_iso, entry_metadata = md,
      analysis_snapshot = snap, instruments = [],
      entry_equipment = \<lparr>equip_mixer = meta_mixer md, equip_pa_system = meta_pa_system md\<rparr>\<rparr>"
  have res: "db' = save (db\<lparr>history := history db @ [e]\<rparr>)" and eid: "eid = now_id"
    using assms g1 g2 g3 g4 by (auto simp: add_entry_def Let_def e_def snap_def)
  have reload: "history (open_database (db_file db')) = history db @ [e]"
    by (simp add: res save_def open_database_def load_def)
  have keys: "map fst (analysis_snapshot e) = persisted_keys"
    by (simp add: e_def snap_def persisted_keys_def)
  have num: "map_of res k = Some v \<Longrightarrow> get_float res k = Inr x \<Longrightarrow> v = Num x" for k v x
    by (cases v) (simp_all add: get_float_def)
  have vals: "\<forall>k \<in> set persisted_keys. \<forall>v. map_of res k = Some v \<longrightarrow>
              map_of (analysis_snapshot e) k = Some v"
    using num [OF _ g1] num [OF _ g2] num [OF _ g3] num [OF _ g4]
    by (auto simp: persisted_keys_def e_def snap_def)
  show ?thesis
    using reload keys vals eid by (intro exI [of _ e] conjI) (simp_all add: e_def)
qed

lemma add_small:
  "add_entry empty_database small_mix_metrics session_now [49] [50] =
     Inr (save (empty_database\<lparr>history :=
            [\<lparr>entry_id = [49], timestamp = [50], entry_metadata = session_now,
              analysis_snapshot =
                [(''rms_db'', Num (- 18)), (''peak_db'', Num (- 3)),
                 (''stereo_width'', Num 35), (''crest_factor'', Num 15),
                 (''band_energies'', Arr [- 30, - 25, - 28, - 32, - 40, - 45, - 60])],
              instruments = [],
              entry_equipment =
                \<lparr>equip_mixer = meta_mixer session_now,
                 equip_pa_system = meta_pa_system session_now\<rparr>\<rparr>]\<rparr>), [49])"
  by (simp add: add_entry_def get_float_def small_mix_metrics_def empty_database_def
        open_database_def load_def Let_def)

lemma reloaded_snapshot_eval:
  "reloaded_snapshot =
     [(''rms_db'', Num (- 18)), (''peak_db'', Num (- 3)),
      (''stereo_width'', Num 35), (''crest_factor'', Num 15),
      (''band_energies'', Arr [- 30, - 25, - 28, - 32, - 40, - 45, - 60])]"
  by (simp add: reloaded_snapshot_def add_small save_def open_database_def load_def)

theorem history_round_trip_witness:
  "map_of small_mix_metrics ''rms_db'' = Some (Num (- 18)) \<and>
   map_of reloaded_snapshot ''rms_db'' = Some (Num (- 18)) \<and>
   map_of reloaded_snapshot ''peak_db'' = Some (Num (- 3)) \<and>
   map_of reloaded_snapshot ''stereo_width'' = Some (Num 35) \<and>
   map_of reloaded_snapshot ''crest_factor'' = Some (Num 15) \<and>
   map_of reloaded_snapshot ''band_energies'' = Some (Arr [- 30, - 25, - 28, - 32, - 40, - 45, - 60])"
proof -
  obtain e where
    h: "history (open_database (db_file (save (empty_database\<lparr>history :=
            [\<lparr>entry_id = [49], timestamp = [50], entry_metadata = session_now,
              analysis_snapshot =
                [(''rms_db'', Num (- 18)), (''peak_db'', Num (- 3)),
                 (''stereo_width'', Num 35), (''crest_factor'', Num 15),
                 (''band_energies'', Arr [- 30, - 25, - 28, - 32, - 40, - 45, - 60])],
              instruments = [],
              entry_equipment =
                \<lparr>equip_mixer = meta_mixer session_now,
                 equip_pa_system = meta_pa_system session_now\<rparr>\<rparr>]\<rparr>)))) =
          history empty_database @ [e]"
    and v: "\<forall>k \<in> set persisted_keys. \<forall>v. map_of small_mix_metrics k = Some v \<longrightarrow>
              map_of (analysis_snapshot e) k = Some v"
    using history_round_trip [OF add_small] by (elim exE conjE)
  have e: "analysis_snapshot e = reloaded_snapshot"
    using h by (simp add: reloaded_snapshot_def add_small)
  have src: "map_of small_mix_metrics ''rms_db'' = Some (Num (- 18))"
    by (simp add: small_mix_metrics_def)
  have "''rms_db'' \<in> set persisted_keys" by (simp add: persisted_keys_def)
  then have rms: "map_of reloaded_snapshot ''rms_db'' = Some (Num (- 18))"
    using v src unfolding e by blast
  show ?thesis
    using src rms by (simp add: reloaded_snapshot_eval)
qed

text \<open>
  The claim C4 as first stated fails: the dynamic range and the correlation of the mix
  are numeric fields of the result and are absent from the entry read back.
\<close>

theorem dynamic_range_not_persisted:
  "map_of small_mix_metrics ''dynamic_range'' = Some (Num 12) \<and>
   map_of reloaded_snapshot ''dynamic_range'' = None \<and>
   map_of small_mix_metrics ''correlation'' = Some (Num (4 / 5)) \<and>
   map_of reloaded_snapshot ''correlation'' = None"
  by (simp add: small_mix_metrics_def reloaded_snapshot_eval)


end
